theory Spec2Isabelle
  imports Complex_Main
begin

section \<open>Data model of \<open>boi.py\<close>\<close>

text \<open>
  \<open>Span\<close> is the class of source locations; \<open>Span.EMPTY\<close> is \<open>Span(0, 0, "")\<close>.
  The field \<open>end\<close> is called \<open>span_end\<close> here, \<open>end\<close> being a keyword.
\<close>

datatype span = Span (start: int) (span_end: int) (slice: string)

definition EMPTY :: span where
  "EMPTY = Span 0 0 ''''"

text \<open>
  \<open>Var\<close> carries a name and a span. It is used as an expression, and as the carrier of
  the name of a function, of a parameter and of a let binding.
\<close>

datatype var = Var (name: string) (span: span)

text \<open>
  The operator of an \<open>AdditiveExpr\<close> is an integer that the constructor asserts to be
  \<open>ADDITION = 0\<close> or \<open>SUBTRACTION = 1\<close>; the operator of a \<open>ComparisonExpr\<close> is asserted to
  be one of \<open>GT = 0\<close> .. \<open>NEQ = 5\<close>. Both are enumerations.
\<close>

datatype additive_op = ADDITION | SUBTRACTION

datatype comparison_op = GT | GTE | LT | LTE | EQ | NEQ

text \<open>
  The subclasses of \<open>Expr\<close>, and \<open>Expr\<close> itself, whose constructor is public and whose
  \<open>eval\<close> is the one inherited from \<open>AST\<close>. The number of a \<open>Value\<close> is a Python float; it
  is modelled by the real number it denotes, so rounding, the infinities and NaN are outside
  the model. The last field of \<open>LambdaExpr\<close> is the identity of the \<open>Function\<close> object that
  its constructor creates and keeps in \<open>as_fn\<close>.
\<close>

datatype expr =
    Expr span
  | Value real span
  | VarExpr var
  | AdditiveExpr expr additive_op expr span
  | ConditionExpr expr span
  | ComparisonExpr expr comparison_op expr span
  | LambdaExpr string "var list" expr expr span nat
  | LetExpr var expr expr span
  | FunctionCall var "expr list" span
  | IfExpr expr expr expr span

text \<open>
  What \<open>eval\<close> returns: a \<open>Value\<close> object (its number and its span), or a raw Python
  \<open>bool\<close> from \<open>ConditionExpr\<close> and \<open>ComparisonExpr\<close>.
\<close>

datatype rv = Val real span | Bool bool

text \<open>
  A \<open>Function\<close> object. \<open>fn_id\<close> is the identity of the object: its one mutable field,
  \<open>argv\<close>, lives in the state below under that identity, because the same object is
  reachable from the syntax tree and from every frame it is registered in.
\<close>

record Function =
  fn_id :: nat
  fn_name :: var
  fn_args :: "var list"
  fn_body :: expr
  fn_span :: span
  is_lambda :: bool

text \<open>
  \<open>LambdaExpr.__init__\<close>:
  \<open>self.as_fn = Function(Var(name, span), args, value, span, is_lambda=True)\<close>.
\<close>

definition as_fn :: "string \<Rightarrow> var list \<Rightarrow> expr \<Rightarrow> span \<Rightarrow> nat \<Rightarrow> Function" where
  "as_fn nm params value_expr sp ident =
     \<lparr>fn_id = ident, fn_name = Var nm sp, fn_args = params, fn_body = value_expr,
      fn_span = sp, is_lambda = True\<rparr>"

text \<open>
  A stack frame is one Python dict. \<open>push_var\<close> and \<open>pop_var\<close> use string keys,
  \<open>push_function\<close> and \<open>pop_function\<close> use \<open>(name, argn)\<close> tuples; a string never equals a
  tuple, so the dict is the disjoint union of a map on names and a map on pairs.
\<close>

record frame =
  vars :: "string \<rightharpoonup> rv"
  funs :: "string \<times> nat \<rightharpoonup> Function"

definition empty_frame :: frame where
  "empty_frame = \<lparr>vars = Map.empty, funs = Map.empty\<rparr>"

text \<open>
  The mutable state of a run: the list \<open>stack_frames\<close> of the \<open>Context\<close> (the current frame
  is the last element), and the \<open>argv\<close> field of every \<open>Function\<close> object, by identity
  (\<open>None\<close> is Python's \<open>None\<close>).
\<close>

record state =
  stack_frames :: "frame list"
  argv :: "nat \<rightharpoonup> rv list"

text \<open>\<open>Context()\<close> has one empty frame, and a new \<open>Function\<close> has \<open>argv = None\<close>.\<close>

definition Context :: state where
  "Context = \<lparr>stack_frames = [empty_frame], argv = Map.empty\<rparr>"

section \<open>Exceptions and outcomes\<close>

text \<open>
  The exceptions the code raises itself (\<open>InterpreterException(reason, span)\<close>, where a
  missing span is \<open>Span.EMPTY\<close>; \<open>Exception\<close>; \<open>TypeError\<close>; a failed \<open>assert\<close>) and the ones
  Python raises below it (\<open>AttributeError\<close> for \<open>.value\<close> of a \<open>bool\<close>, \<open>IndexError\<close>).
\<close>

datatype error =
    InterpreterException string span
  | Exception string
  | TypeError string
  | AssertionError
  | AttributeError
  | IndexError

text \<open>
  A call returns, raises, or has not finished within the recursion budget it was given.
  A state-changing operation yields its outcome together with the state it leaves behind,
  also when it raises.
\<close>

datatype 'a outcome = Return 'a | Raise error | OutOfFuel

fun bind :: "'a outcome \<times> state \<Rightarrow> ('a \<Rightarrow> state \<Rightarrow> 'b outcome \<times> state) \<Rightarrow> 'b outcome \<times> state" where
  "bind (Return x, s) f = f x s"
| "bind (Raise e, s) f = (Raise e, s)"
| "bind (OutOfFuel, s) f = (OutOfFuel, s)"

text \<open>\<open>str(n)\<close> of a non-negative integer, as an f-string prints it.\<close>

fun str_nat :: "nat \<Rightarrow> string" where
  "str_nat n =
     (if n < 10 then [''0123456789'' ! n]
      else str_nat (n div 10) @ [''0123456789'' ! (n mod 10)])"

declare str_nat.simps [simp del]

definition quoted :: "string \<Rightarrow> string" where
  "quoted s = [CHR 0x27] @ s @ [CHR 0x27]"

section \<open>The class \<open>Context\<close>\<close>

definition push_stack_frame :: "state \<Rightarrow> unit outcome \<times> state" where
  "push_stack_frame s = (Return (), s\<lparr>stack_frames := stack_frames s @ [empty_frame]\<rparr>)"

definition pop_stack_frame :: "state \<Rightarrow> frame outcome \<times> state" where
  "pop_stack_frame s =
     (if stack_frames s = [] then (Raise IndexError, s)
      else (Return (last (stack_frames s)), s\<lparr>stack_frames := butlast (stack_frames s)\<rparr>))"

definition current_stack_frame :: "state \<Rightarrow> frame outcome" where
  "current_stack_frame s =
     (if length (stack_frames s) > 0 then Return (last (stack_frames s))
      else Raise AssertionError)"

text \<open>The dicts are mutated in place: writing to the current frame replaces the last element.\<close>

definition set_current_frame :: "frame \<Rightarrow> state \<Rightarrow> state" where
  "set_current_frame sf s = s\<lparr>stack_frames := butlast (stack_frames s) @ [sf]\<rparr>"

definition push_var :: "var \<Rightarrow> rv \<Rightarrow> state \<Rightarrow> unit outcome \<times> state" where
  "push_var v val s =
     (case current_stack_frame s of
        Return sf \<Rightarrow>
          if vars sf (name v) \<noteq> None
          then (Raise (InterpreterException ''name shadowing is not supported'' EMPTY), s)
          else (Return (), set_current_frame (sf\<lparr>vars := (vars sf)(name v \<mapsto> val)\<rparr>) s)
      | Raise e \<Rightarrow> (Raise e, s)
      | OutOfFuel \<Rightarrow> (OutOfFuel, s))"

definition pop_var :: "var \<Rightarrow> state \<Rightarrow> rv outcome \<times> state" where
  "pop_var v s =
     (case current_stack_frame s of
        Return sf \<Rightarrow>
          (case vars sf (name v) of
             Some val \<Rightarrow> (Return val, set_current_frame (sf\<lparr>vars := (vars sf)(name v := None)\<rparr>) s)
           | None \<Rightarrow>
               (Raise (InterpreterException
                  ''tried to pop var which hasn't been added to the current stack frame''
                  (span v)), s))
      | Raise e \<Rightarrow> (Raise e, s)
      | OutOfFuel \<Rightarrow> (OutOfFuel, s))"

text \<open>\<open>push_args\<close>: the assertion, then \<open>push_var\<close> over \<open>zip(args, values)\<close>.\<close>

fun push_zipped :: "(var \<times> rv) list \<Rightarrow> state \<Rightarrow> unit outcome \<times> state" where
  "push_zipped [] s = (Return (), s)"
| "push_zipped ((arg, val) # rest) s = bind (push_var arg val s) (\<lambda>_. push_zipped rest)"

definition push_args :: "var list \<Rightarrow> rv list \<Rightarrow> state \<Rightarrow> unit outcome \<times> state" where
  "push_args params values s =
     (if length params = length values then push_zipped (zip params values) s
      else (Raise AssertionError, s))"

text \<open>\<open>pop_args\<close>: \<open>list(map(lambda arg: self.pop_var(arg), args))\<close>.\<close>

fun pop_args :: "var list \<Rightarrow> state \<Rightarrow> rv list outcome \<times> state" where
  "pop_args [] s = (Return [], s)"
| "pop_args (arg # rest) s =
     bind (pop_var arg s) (\<lambda>val s1.
     bind (pop_args rest s1) (\<lambda>vals s2. (Return (val # vals), s2)))"

definition push_function :: "Function \<Rightarrow> state \<Rightarrow> unit outcome \<times> state" where
  "push_function fn s =
     (case current_stack_frame s of
        Return sf \<Rightarrow>
          (let argn = length (fn_args fn) in
           if funs sf (name (fn_name fn), argn) \<noteq> None
           then (Raise (InterpreterException
                   (''function '' @ quoted (name (fn_name fn)) @ '' with '' @ str_nat argn @
                    '' arguments is already defined, and name shadowing is not supported'')
                   (fn_span fn)), s)
           else (Return (),
                 set_current_frame (sf\<lparr>funs := (funs sf)((name (fn_name fn), argn) \<mapsto> fn)\<rparr>) s))
      | Raise e \<Rightarrow> (Raise e, s)
      | OutOfFuel \<Rightarrow> (OutOfFuel, s))"

definition pop_function :: "Function \<Rightarrow> state \<Rightarrow> Function outcome \<times> state" where
  "pop_function fn s =
     (case current_stack_frame s of
        Return sf \<Rightarrow>
          (let argn = length (fn_args fn) in
           case funs sf (name (fn_name fn), argn) of
             Some f \<Rightarrow>
               (Return f,
                set_current_frame (sf\<lparr>funs := (funs sf)((name (fn_name fn), argn) := None)\<rparr>) s)
           | None \<Rightarrow>
               (Raise (InterpreterException
                  (''tried top pop function '' @ quoted (name (fn_name fn)) @ '' with '' @
                   str_nat argn @
                   '' arguments which hasn't been added to the current stack frame'')
                  (fn_span fn)), s))
      | Raise e \<Rightarrow> (Raise e, s)
      | OutOfFuel \<Rightarrow> (OutOfFuel, s))"

text \<open>
  \<open>get_stack_frame(offset)\<close>: the assertion \<open>offset <= 0\<close>, \<open>None\<close> when
  \<open>len(stack_frames) < abs(offset)\<close>, else \<open>stack_frames[offset]\<close> with Python's indexing
  (a negative index counts from the end; an index out of range raises \<open>IndexError\<close>).
\<close>

definition py_index :: "'a list \<Rightarrow> int \<Rightarrow> 'a outcome" where
  "py_index xs i =
     (let n = int (length xs); j = (if i < 0 then n + i else i)
      in if 0 \<le> j \<and> j < n then Return (xs ! nat j) else Raise IndexError)"

definition get_stack_frame :: "int \<Rightarrow> state \<Rightarrow> frame option outcome" where
  "get_stack_frame offset s =
     (if \<not> offset \<le> 0 then Raise AssertionError
      else if int (length (stack_frames s)) < abs offset then Return None
      else (case py_index (stack_frames s) offset of
              Return sf \<Rightarrow> Return (Some sf)
            | Raise e \<Rightarrow> Raise e
            | OutOfFuel \<Rightarrow> OutOfFuel))"

text \<open>
  The loop of \<open>get_var\<close>: \<open>while sf is not None\<close>, look \<open>var.name\<close> up in \<open>sf\<close>, else go on
  with \<open>get_stack_frame(offset)\<close> and \<open>offset - 1\<close>; after the loop, raise.
\<close>

function get_var_loop :: "var \<Rightarrow> frame option \<Rightarrow> int \<Rightarrow> state \<Rightarrow> rv outcome" where
  "get_var_loop v sf offset s =
     (case sf of
        None \<Rightarrow>
          Raise (InterpreterException (''no variable with name '' @ quoted (name v)) (span v))
      | Some f \<Rightarrow>
          (case vars f (name v) of
             Some val \<Rightarrow> Return val
           | None \<Rightarrow>
               (case get_stack_frame offset s of
                  Return sf' \<Rightarrow> get_var_loop v sf' (offset - 1) s
                | Raise e \<Rightarrow> Raise e
                | OutOfFuel \<Rightarrow> OutOfFuel)))"
  by pat_completeness auto
termination
proof (relation "measure (\<lambda>(v, sf, offset, s).
         case sf of None \<Rightarrow> 0 | Some _ \<Rightarrow> Suc (nat (int (length (stack_frames s)) + 1 + offset)))")
  show "wf (measure (\<lambda>(v, sf, offset, s).
         case sf of None \<Rightarrow> 0 | Some _ \<Rightarrow> Suc (nat (int (length (stack_frames s)) + 1 + offset))))"
    by simp
next
  fix v :: var and sf :: "frame option" and offset :: int and s :: state
    and f :: frame and sf' :: "frame option"
  assume "sf = Some f" and "get_stack_frame offset s = Return sf'"
  then show "((v, sf', offset - 1, s), (v, sf, offset, s))
      \<in> measure (\<lambda>(v, sf, offset, s).
         case sf of None \<Rightarrow> 0 | Some _ \<Rightarrow> Suc (nat (int (length (stack_frames s)) + 1 + offset)))"
    by (cases sf') (auto simp: get_stack_frame_def split: if_splits)
qed

declare get_var_loop.simps [simp del]

definition get_var :: "var \<Rightarrow> state \<Rightarrow> rv outcome" where
  "get_var v s =
     (case current_stack_frame s of
        Return sf \<Rightarrow> get_var_loop v (Some sf) (- 1) s
      | Raise e \<Rightarrow> Raise e
      | OutOfFuel \<Rightarrow> OutOfFuel)"

text \<open>\<open>get_function\<close> is the same loop on the key \<open>(var.name, argn)\<close>.\<close>

function get_function_loop :: "var \<Rightarrow> nat \<Rightarrow> frame option \<Rightarrow> int \<Rightarrow> state \<Rightarrow> Function outcome" where
  "get_function_loop v argn sf offset s =
     (case sf of
        None \<Rightarrow>
          Raise (InterpreterException
            (''no such function '' @ quoted (name v) @ '' with '' @ str_nat argn @ '' arguments'')
            (span v))
      | Some f \<Rightarrow>
          (case funs f (name v, argn) of
             Some fn \<Rightarrow> Return fn
           | None \<Rightarrow>
               (case get_stack_frame offset s of
                  Return sf' \<Rightarrow> get_function_loop v argn sf' (offset - 1) s
                | Raise e \<Rightarrow> Raise e
                | OutOfFuel \<Rightarrow> OutOfFuel)))"
  by pat_completeness auto
termination
proof (relation "measure (\<lambda>(v, argn, sf, offset, s).
         case sf of None \<Rightarrow> 0 | Some _ \<Rightarrow> Suc (nat (int (length (stack_frames s)) + 1 + offset)))")
  show "wf (measure (\<lambda>(v, argn, sf, offset, s).
         case sf of None \<Rightarrow> 0 | Some _ \<Rightarrow> Suc (nat (int (length (stack_frames s)) + 1 + offset))))"
    by simp
next
  fix v :: var and argn :: nat and sf :: "frame option" and offset :: int and s :: state
    and f :: frame and sf' :: "frame option"
  assume "sf = Some f" and "get_stack_frame offset s = Return sf'"
  then show "((v, argn, sf', offset - 1, s), (v, argn, sf, offset, s))
      \<in> measure (\<lambda>(v, argn, sf, offset, s).
         case sf of None \<Rightarrow> 0 | Some _ \<Rightarrow> Suc (nat (int (length (stack_frames s)) + 1 + offset)))"
    by (cases sf') (auto simp: get_stack_frame_def split: if_splits)
qed

declare get_function_loop.simps [simp del]

text \<open>The assertion \<open>argn >= 0\<close> of \<open>get_function\<close> holds of every natural number.\<close>

definition get_function :: "var \<Rightarrow> nat \<Rightarrow> state \<Rightarrow> Function outcome" where
  "get_function v argn s =
     (case current_stack_frame s of
        Return sf \<Rightarrow> get_function_loop v argn (Some sf) (- 1) s
      | Raise e \<Rightarrow> Raise e
      | OutOfFuel \<Rightarrow> OutOfFuel)"

section \<open>Operators on results\<close>

text \<open>
  \<open>lhs_value + rhs_value\<close> in \<open>AdditiveExpr.eval\<close>. On two \<open>Value\<close>s it is \<open>Value.__add__\<close>,
  the float sum of the numbers. A \<open>Value\<close> on the left and a \<open>bool\<close> on the right fails in
  \<open>other.value\<close>; a \<open>bool\<close> on the left and a \<open>Value\<close> on the right has no implementation
  (\<open>Value\<close> defines no \<open>__radd__\<close>); two \<open>bool\<close>s add as integers. \<open>pyobj\<close> holds the Python
  objects that are not results of \<open>eval\<close>: the sum before \<open>assert type(new_value) == float\<close>,
  and the members of \<open>FALSE_VALUES\<close>.
\<close>

datatype pyobj = PyFloat real | PyInt int | PyStr string | PyEmptyList

fun py_add :: "rv \<Rightarrow> rv \<Rightarrow> pyobj outcome" where
  "py_add (Val a _) (Val b _) = Return (PyFloat (a + b))"
| "py_add (Val a _) (Bool b) = Raise AttributeError"
| "py_add (Bool a) (Val b _) = Raise (TypeError ''unsupported operand type(s) for +'')"
| "py_add (Bool a) (Bool b) = Return (PyInt (of_bool a + of_bool b))"

text \<open>
  \<open>ConditionExpr.FALSE_VALUES = [0.0, "", []]\<close>, and \<open>x not in FALSE_VALUES\<close> for the float
  \<open>x\<close>: a float equals neither a string nor a list.
\<close>

definition FALSE_VALUES :: "pyobj list" where
  "FALSE_VALUES = [PyFloat 0, PyStr [], PyEmptyList]"

text \<open>
  \<open>ComparisonExpr.COMPARISON_FNS\<close>. On two \<open>Value\<close>s the operators are the ones \<open>Value\<close>
  defines, on the numbers; two \<open>bool\<close>s compare as Python compares them (\<open>False < True\<close>); in a
  mixed pair, whichever method Python ends up calling is one of \<open>Value\<close>'s and reads \<open>.value\<close>
  of the \<open>bool\<close>.
\<close>

fun COMPARISON_FNS :: "comparison_op \<Rightarrow> 'a::linorder \<Rightarrow> 'a \<Rightarrow> bool" where
  "COMPARISON_FNS GT l r = (l > r)"
| "COMPARISON_FNS GTE l r = (l \<ge> r)"
| "COMPARISON_FNS LT l r = (l < r)"
| "COMPARISON_FNS LTE l r = (l \<le> r)"
| "COMPARISON_FNS EQ l r = (l = r)"
| "COMPARISON_FNS NEQ l r = (l \<noteq> r)"

fun py_compare :: "comparison_op \<Rightarrow> rv \<Rightarrow> rv \<Rightarrow> rv outcome" where
  "py_compare operator (Val a _) (Val b _) = Return (Bool (COMPARISON_FNS operator a b))"
| "py_compare operator (Bool a) (Bool b) = Return (Bool (COMPARISON_FNS operator a b))"
| "py_compare operator (Val a _) (Bool b) = Raise AttributeError"
| "py_compare operator (Bool a) (Val b _) = Raise AttributeError"

text \<open>
  The truth value of a result in \<open>if self.condition.eval(context)\<close>: a \<open>bool\<close> is itself, and
  a \<open>Value\<close> object, which defines neither \<open>__bool__\<close> nor \<open>__len__\<close>, is true.
\<close>

fun truthy :: "rv \<Rightarrow> bool" where
  "truthy (Bool b) = b"
| "truthy (Val _ _) = True"

section \<open>The class \<open>Function\<close>\<close>

definition set_args :: "Function \<Rightarrow> rv list \<Rightarrow> state \<Rightarrow> bool outcome \<times> state" where
  "set_args fn values s =
     (if length values \<noteq> length (fn_args fn)
      then (Raise (Exception
              ''Interpreter Error: Calling function with wrong number of arguments.''), s)
      else (Return True, s\<lparr>argv := (argv s)(fn_id fn \<mapsto> values)\<rparr>))"

definition clear_args :: "Function \<Rightarrow> state \<Rightarrow> unit outcome \<times> state" where
  "clear_args fn s = (Return (), s\<lparr>argv := (argv s)(fn_id fn := None)\<rparr>)"

text \<open>
  \<open>Function.eval\<close>, with the evaluator of the body as a parameter. The assertion
  \<open>self.argv != None\<close> and the read of \<open>self.argv\<close> for \<open>push_args\<close> see the same value,
  since only \<open>push_stack_frame\<close> runs between them.
\<close>

definition Function_eval ::
  "(expr \<Rightarrow> state \<Rightarrow> rv outcome \<times> state) \<Rightarrow> Function \<Rightarrow> state \<Rightarrow> rv outcome \<times> state" where
  "Function_eval ev fn s =
     (case argv s (fn_id fn) of
        None \<Rightarrow> (Raise AssertionError, s)
      | Some values \<Rightarrow>
          bind (if \<not> is_lambda fn then push_stack_frame s else (Return (), s)) (\<lambda>_ s.
          bind (push_args (fn_args fn) values s) (\<lambda>_ s.
          bind (ev (fn_body fn) s) (\<lambda>r s.
          bind (clear_args fn s) (\<lambda>_ s.
          bind (pop_args (fn_args fn) s) (\<lambda>_ s.
          bind (if \<not> is_lambda fn then bind (pop_stack_frame s) (\<lambda>_ s. (Return (), s))
                else (Return (), s)) (\<lambda>_ s.
          (Return r, s))))))))"

section \<open>\<open>eval\<close> of the expression classes\<close>

text \<open>\<open>list(map(lambda exp: exp.eval(context), self.argv))\<close>: left to right.\<close>

fun map_eval ::
  "(expr \<Rightarrow> state \<Rightarrow> rv outcome \<times> state) \<Rightarrow> expr list \<Rightarrow> state \<Rightarrow> rv list outcome \<times> state" where
  "map_eval ev [] s = (Return [], s)"
| "map_eval ev (e # es) s =
     bind (ev e s) (\<lambda>val s.
     bind (map_eval ev es s) (\<lambda>vals s. (Return (val # vals), s)))"

text \<open>
  The first argument bounds the depth of nested \<open>eval\<close> calls: evaluation need not
  terminate (a function may call itself for ever), and a call that needs more depth than
  it is given yields \<open>OutOfFuel\<close>.
\<close>

fun eval :: "nat \<Rightarrow> expr \<Rightarrow> state \<Rightarrow> rv outcome \<times> state" where
  "eval 0 e s = (OutOfFuel, s)"
| "eval (Suc n) (Expr sp) s = (Raise (Exception ''Unimplemented''), s)"
| "eval (Suc n) (Value x sp) s = (Return (Val x sp), s)"
| "eval (Suc n) (VarExpr v) s = (get_var v s, s)"
| "eval (Suc n) (AdditiveExpr lhs operator rhs sp) s =
     bind (eval n lhs s) (\<lambda>lhs_value s.
     bind (eval n rhs s) (\<lambda>rhs_value s.
       (case py_add lhs_value rhs_value of
          Return (PyFloat new_value) \<Rightarrow> Return (Val new_value sp)
        | Return _ \<Rightarrow> Raise AssertionError
        | Raise e \<Rightarrow> Raise e
        | OutOfFuel \<Rightarrow> OutOfFuel, s)))"
| "eval (Suc n) (ConditionExpr condition sp) s =
     bind (eval n condition s) (\<lambda>r s.
       (case r of
          Val x _ \<Rightarrow> Return (Bool (PyFloat x \<notin> set FALSE_VALUES))
        | Bool _ \<Rightarrow> Raise AttributeError, s))"
| "eval (Suc n) (ComparisonExpr lhs operator rhs sp) s =
     bind (eval n lhs s) (\<lambda>l s.
     bind (eval n rhs s) (\<lambda>r s. (py_compare operator l r, s)))"
| "eval (Suc n) (LambdaExpr nm params value_expr body sp ident) s =
     bind (push_function (as_fn nm params value_expr sp ident) s) (\<lambda>_ s.
     bind (eval n body s) (\<lambda>result s.
     bind (pop_function (as_fn nm params value_expr sp ident) s) (\<lambda>_ s.
     (Return result, s))))"
| "eval (Suc n) (LetExpr v value_expr body sp) s =
     bind (eval n value_expr s) (\<lambda>val s.
     bind (push_var v val s) (\<lambda>_ s.
     bind (eval n body s) (\<lambda>body_value s.
     bind (pop_var v s) (\<lambda>_ s.
     (Return body_value, s)))))"
| "eval (Suc n) (FunctionCall v args sp) s =
     bind (get_function v (length args) s, s) (\<lambda>fn s.
     bind (map_eval (eval n) args s) (\<lambda>values s.
     bind (set_args fn values s) (\<lambda>_ s.
     Function_eval (eval n) fn s)))"
| "eval (Suc n) (IfExpr condition true_expr false_expr sp) s =
     bind (eval n condition s) (\<lambda>c s.
       if truthy c then eval n true_expr s else eval n false_expr s)"

section \<open>The class \<open>Program\<close>\<close>

text \<open>
  A statement of a program is any Python object: a \<open>Function\<close>, an instance of \<open>Expr\<close> or of
  one of its subclasses, or something else. \<open>type(statement)\<close> is the exact class of the
  object.
\<close>

datatype statement = FunctionDecl Function | ExprDecl expr | OtherDecl

datatype pytype =
    TFunction | TExpr | TValue | TVar | TAdditiveExpr | TConditionExpr | TComparisonExpr
  | TLambdaExpr | TLetExpr | TFunctionCall | TIfExpr | TOther

fun type_of_expr :: "expr \<Rightarrow> pytype" where
  "type_of_expr (Expr _) = TExpr"
| "type_of_expr (Value _ _) = TValue"
| "type_of_expr (VarExpr _) = TVar"
| "type_of_expr (AdditiveExpr _ _ _ _) = TAdditiveExpr"
| "type_of_expr (ConditionExpr _ _) = TConditionExpr"
| "type_of_expr (ComparisonExpr _ _ _ _) = TComparisonExpr"
| "type_of_expr (LambdaExpr _ _ _ _ _ _) = TLambdaExpr"
| "type_of_expr (LetExpr _ _ _ _) = TLetExpr"
| "type_of_expr (FunctionCall _ _ _) = TFunctionCall"
| "type_of_expr (IfExpr _ _ _ _) = TIfExpr"

fun type_of :: "statement \<Rightarrow> pytype" where
  "type_of (FunctionDecl _) = TFunction"
| "type_of (ExprDecl e) = type_of_expr e"
| "type_of OtherDecl = TOther"

text \<open>
  \<open>Program.run\<close> on \<open>self.context\<close>: the loop over \<open>self.statements\<close>, each statement
  evaluated within the depth \<open>n\<close>.
\<close>

fun run :: "nat \<Rightarrow> statement list \<Rightarrow> state \<Rightarrow> unit outcome \<times> state" where
  "run n [] s = (Return (), s)"
| "run n (statement # rest) s =
     (let ty = type_of statement in
      if ty = TFunction then
        (case statement of
           FunctionDecl fn \<Rightarrow> bind (push_function fn s) (\<lambda>_. run n rest)
         | _ \<Rightarrow> (Raise (TypeError ''Expected Function or Expr''), s))
      else if ty = TExpr then
        (case statement of
           ExprDecl e \<Rightarrow> bind (eval n e s) (\<lambda>_. run n rest)
         | _ \<Rightarrow> (Raise (TypeError ''Expected Function or Expr''), s))
      else (Raise (TypeError ''Expected Function or Expr''), s))"

section \<open>Evaluation with call-local arguments\<close>

text \<open>
  The specification describes a second way to call a function, in which the arguments are
  passed "as an explicit call-local structure rather than node-local state": nothing is
  stored on the \<open>Function\<close>. \<open>Function_eval_call_local\<close> and \<open>eval_call_local\<close> follow
  these words. They differ from \<open>Function.eval\<close> and \<open>eval\<close> in the call only: the values go
  from the call site to \<open>push_args\<close> directly (after the same check of their number), and
  \<open>argv\<close> is neither written nor read.
\<close>

definition Function_eval_call_local ::
  "(expr \<Rightarrow> state \<Rightarrow> rv outcome \<times> state) \<Rightarrow> Function \<Rightarrow> rv list \<Rightarrow> state
     \<Rightarrow> rv outcome \<times> state" where
  "Function_eval_call_local ev fn values s =
     bind (if \<not> is_lambda fn then push_stack_frame s else (Return (), s)) (\<lambda>_ s.
     bind (push_args (fn_args fn) values s) (\<lambda>_ s.
     bind (ev (fn_body fn) s) (\<lambda>r s.
     bind (pop_args (fn_args fn) s) (\<lambda>_ s.
     bind (if \<not> is_lambda fn then bind (pop_stack_frame s) (\<lambda>_ s. (Return (), s))
           else (Return (), s)) (\<lambda>_ s.
     (Return r, s))))))"

fun eval_call_local :: "nat \<Rightarrow> expr \<Rightarrow> state \<Rightarrow> rv outcome \<times> state" where
  "eval_call_local 0 e s = (OutOfFuel, s)"
| "eval_call_local (Suc n) (Expr sp) s = (Raise (Exception ''Unimplemented''), s)"
| "eval_call_local (Suc n) (Value x sp) s = (Return (Val x sp), s)"
| "eval_call_local (Suc n) (VarExpr v) s = (get_var v s, s)"
| "eval_call_local (Suc n) (AdditiveExpr lhs operator rhs sp) s =
     bind (eval_call_local n lhs s) (\<lambda>lhs_value s.
     bind (eval_call_local n rhs s) (\<lambda>rhs_value s.
       (case py_add lhs_value rhs_value of
          Return (PyFloat new_value) \<Rightarrow> Return (Val new_value sp)
        | Return _ \<Rightarrow> Raise AssertionError
        | Raise e \<Rightarrow> Raise e
        | OutOfFuel \<Rightarrow> OutOfFuel, s)))"
| "eval_call_local (Suc n) (ConditionExpr condition sp) s =
     bind (eval_call_local n condition s) (\<lambda>r s.
       (case r of
          Val x _ \<Rightarrow> Return (Bool (PyFloat x \<notin> set FALSE_VALUES))
        | Bool _ \<Rightarrow> Raise AttributeError, s))"
| "eval_call_local (Suc n) (ComparisonExpr lhs operator rhs sp) s =
     bind (eval_call_local n lhs s) (\<lambda>l s.
     bind (eval_call_local n rhs s) (\<lambda>r s. (py_compare operator l r, s)))"
| "eval_call_local (Suc n) (LambdaExpr nm params value_expr body sp ident) s =
     bind (push_function (as_fn nm params value_expr sp ident) s) (\<lambda>_ s.
     bind (eval_call_local n body s) (\<lambda>result s.
     bind (pop_function (as_fn nm params value_expr sp ident) s) (\<lambda>_ s.
     (Return result, s))))"
| "eval_call_local (Suc n) (LetExpr v value_expr body sp) s =
     bind (eval_call_local n value_expr s) (\<lambda>val s.
     bind (push_var v val s) (\<lambda>_ s.
     bind (eval_call_local n body s) (\<lambda>body_value s.
     bind (pop_var v s) (\<lambda>_ s.
     (Return body_value, s)))))"
| "eval_call_local (Suc n) (FunctionCall v args sp) s =
     bind (get_function v (length args) s, s) (\<lambda>fn s.
     bind (map_eval (eval_call_local n) args s) (\<lambda>values s.
       if length values \<noteq> length (fn_args fn)
       then (Raise (Exception
               ''Interpreter Error: Calling function with wrong number of arguments.''), s)
       else Function_eval_call_local (eval_call_local n) fn values s))"
| "eval_call_local (Suc n) (IfExpr condition true_expr false_expr sp) s =
     bind (eval_call_local n condition s) (\<lambda>c s.
       if truthy c then eval_call_local n true_expr s else eval_call_local n false_expr s)"


section \<open>Example states and programs\<close>

text \<open>A context of two frames: the base frame binds \<open>a\<close> to 5.0, the current frame is empty.\<close>

definition two_frames :: state where
  "two_frames =
     \<lparr>stack_frames = [\<lparr>vars = [''a'' \<mapsto> Val 5 EMPTY], funs = Map.empty\<rparr>, empty_frame],
      argv = Map.empty\<rparr>"

text \<open>
  The function of the test \<open>test_simple_function\<close>, \<open>sum(a, b) = a + b\<close>, and the context in
  which \<open>Program([sum]).run()\<close> leaves it registered.
\<close>

definition sum_fn :: Function where
  "sum_fn =
     \<lparr>fn_id = 0, fn_name = Var ''sum'' EMPTY, fn_args = [Var ''a'' EMPTY, Var ''b'' EMPTY],
      fn_body = AdditiveExpr (VarExpr (Var ''a'' EMPTY)) ADDITION (VarExpr (Var ''b'' EMPTY)) EMPTY,
      fn_span = EMPTY, is_lambda = False\<rparr>"

definition sum_registered :: state where
  "sum_registered =
     \<lparr>stack_frames = [\<lparr>vars = Map.empty, funs = [(''sum'', 2) \<mapsto> sum_fn]\<rparr>],
      argv = Map.empty\<rparr>"

definition sum_call :: expr where
  "sum_call = FunctionCall (Var ''sum'' EMPTY) [Value 4 EMPTY, Value 5 EMPTY] EMPTY"

text \<open>
  The lambda of the test \<open>test_simple_lambda_expr\<close>, registered in the base frame; the same
  context with the variable \<open>a\<close>, the name of its first parameter, bound in that frame; and
  the call \<open>lambda(4.0, 1.0)\<close>.
\<close>

definition lambda_fn :: Function where
  "lambda_fn = as_fn ''lambda'' [Var ''a'' EMPTY, Var ''b'' EMPTY]
     (AdditiveExpr (VarExpr (Var ''a'' EMPTY)) ADDITION (VarExpr (Var ''b'' EMPTY)) EMPTY) EMPTY 1"

definition lambda_registered :: state where
  "lambda_registered =
     \<lparr>stack_frames = [\<lparr>vars = Map.empty, funs = [(''lambda'', 2) \<mapsto> lambda_fn]\<rparr>],
      argv = Map.empty\<rparr>"

definition a_bound :: state where
  "a_bound =
     \<lparr>stack_frames =
        [\<lparr>vars = [''a'' \<mapsto> Val 7 EMPTY], funs = [(''lambda'', 2) \<mapsto> lambda_fn]\<rparr>],
      argv = Map.empty\<rparr>"

definition lambda_call :: expr where
  "lambda_call = FunctionCall (Var ''lambda'' EMPTY) [Value 4 EMPTY, Value 1 EMPTY] EMPTY"

text \<open>
  The expression of the test \<open>test_let_expr\<close>, \<open>let a = 5 in a\<close>, and \<open>let a = 5 in b\<close>, whose
  body raises.
\<close>

definition let_expr :: expr where
  "let_expr = LetExpr (Var ''a'' EMPTY) (Value 5 EMPTY) (VarExpr (Var ''a'' EMPTY)) EMPTY"

definition let_unbound :: expr where
  "let_unbound = LetExpr (Var ''a'' EMPTY) (Value 5 EMPTY) (VarExpr (Var ''b'' EMPTY)) EMPTY"

text \<open>
  A function that calls itself through its one \<open>Function\<close> object, with another argument
  at each depth, and reads its parameter after the inner call has returned:
  \<open>down(n) = if n then down(n + -1) + n else 0\<close>.
\<close>

definition down_fn :: Function where
  "down_fn =
     \<lparr>fn_id = 2, fn_name = Var ''down'' EMPTY, fn_args = [Var ''n'' EMPTY],
      fn_body =
        IfExpr (ConditionExpr (VarExpr (Var ''n'' EMPTY)) EMPTY)
          (AdditiveExpr
             (FunctionCall (Var ''down'' EMPTY)
                [AdditiveExpr (VarExpr (Var ''n'' EMPTY)) ADDITION (Value (- 1) EMPTY) EMPTY] EMPTY)
             ADDITION (VarExpr (Var ''n'' EMPTY)) EMPTY)
          (Value 0 EMPTY) EMPTY,
      fn_span = EMPTY, is_lambda = False\<rparr>"

definition down_registered :: state where
  "down_registered =
     \<lparr>stack_frames = [\<lparr>vars = Map.empty, funs = [(''down'', 1) \<mapsto> down_fn]\<rparr>],
      argv = Map.empty\<rparr>"

definition down_call :: expr where
  "down_call = FunctionCall (Var ''down'' EMPTY) [Value 3 EMPTY] EMPTY"

section \<open>Sequencing\<close>

lemma bind_Return_iff:
  "bind m f = (Return r, s') \<longleftrightarrow> (\<exists>x s1. m = (Return x, s1) \<and> f x s1 = (Return r, s'))"
proof (cases m)
  case (Pair out s1)
  then show ?thesis by (cases out) auto
qed

lemma fst_bind_Raise:
  "fst m = Raise e \<Longrightarrow> fst (bind m f) = Raise e"
  by (cases m) simp

section \<open>Frames under the operations of \<open>Context\<close>\<close>

lemma push_var_Return:
  "push_var v val s = (Return u, s') \<longleftrightarrow>
     stack_frames s \<noteq> [] \<and> vars (last (stack_frames s)) (name v) = None \<and>
     s' = set_current_frame
            ((last (stack_frames s))\<lparr>vars := (vars (last (stack_frames s)))(name v \<mapsto> val)\<rparr>) s"
  by (auto simp: push_var_def current_stack_frame_def)

lemma push_var_bound:
  "stack_frames s \<noteq> [] \<Longrightarrow> vars (last (stack_frames s)) (name v) \<noteq> None \<Longrightarrow>
   push_var v val s = (Raise (InterpreterException ''name shadowing is not supported'' EMPTY), s)"
  by (simp add: push_var_def current_stack_frame_def)

lemma pop_var_Return:
  "pop_var v s = (Return x, s') \<longleftrightarrow>
     stack_frames s \<noteq> [] \<and> vars (last (stack_frames s)) (name v) = Some x \<and>
     s' = set_current_frame
            ((last (stack_frames s))\<lparr>vars := (vars (last (stack_frames s)))(name v := None)\<rparr>) s"
  by (auto simp: pop_var_def current_stack_frame_def split: option.splits)

lemma push_function_Return:
  "push_function fn s = (Return u, s') \<longleftrightarrow>
     stack_frames s \<noteq> [] \<and>
     funs (last (stack_frames s)) (name (fn_name fn), length (fn_args fn)) = None \<and>
     s' = set_current_frame
            ((last (stack_frames s))\<lparr>funs := (funs (last (stack_frames s)))
               ((name (fn_name fn), length (fn_args fn)) \<mapsto> fn)\<rparr>) s"
  by (auto simp: push_function_def current_stack_frame_def Let_def)

lemma push_function_bound:
  "stack_frames s \<noteq> [] \<Longrightarrow>
   funs (last (stack_frames s)) (name (fn_name fn), length (fn_args fn)) \<noteq> None \<Longrightarrow>
   push_function fn s =
     (Raise (InterpreterException
        (''function '' @ quoted (name (fn_name fn)) @ '' with '' @
         str_nat (length (fn_args fn)) @
         '' arguments is already defined, and name shadowing is not supported'')
        (fn_span fn)), s)"
  by (simp add: push_function_def current_stack_frame_def Let_def)

lemma pop_function_Return:
  "pop_function fn s = (Return f, s') \<longleftrightarrow>
     stack_frames s \<noteq> [] \<and>
     funs (last (stack_frames s)) (name (fn_name fn), length (fn_args fn)) = Some f \<and>
     s' = set_current_frame
            ((last (stack_frames s))\<lparr>funs := (funs (last (stack_frames s)))
               ((name (fn_name fn), length (fn_args fn)) := None)\<rparr>) s"
  by (auto simp: pop_function_def current_stack_frame_def Let_def split: option.splits)

lemma stack_frames_set_current_frame [simp]:
  "stack_frames (set_current_frame sf s) = butlast (stack_frames s) @ [sf]"
  by (simp add: set_current_frame_def)

lemma argv_set_current_frame [simp]:
  "argv (set_current_frame sf s) = argv s"
  by (simp add: set_current_frame_def)

lemma frame_eq_iff:
  "(f :: frame) = g \<longleftrightarrow> vars f = vars g \<and> funs f = funs g"
  by (cases f, cases g) auto

lemma restore_current_frame:
  fixes fs :: "frame list"
  assumes "fs \<noteq> []" and "vars g = vars (last fs)" and "funs g = funs (last fs)"
  shows "butlast fs @ [g] = fs"
proof -
  from assms(2,3) have "g = last fs" by (simp add: frame_eq_iff)
  with assms(1) show ?thesis by simp
qed

lemma frames_eqI:
  assumes "length fs' = length fs" and "butlast fs' = butlast fs"
    and "fs \<noteq> [] \<Longrightarrow> last fs' = last fs"
  shows "fs' = fs"
proof (cases "fs = []")
  case True
  with assms(1) show ?thesis by simp
next
  case False
  with assms(1) have "fs' \<noteq> []" by auto
  then have "fs' = butlast fs' @ [last fs']" by simp
  also have "\<dots> = butlast fs @ [last fs]" using assms(2,3) False by simp
  also have "\<dots> = fs" using False by simp
  finally show ?thesis .
qed

section \<open>The downward walk of \<open>get_var\<close> and \<open>get_function\<close>\<close>

text \<open>
  The loop of \<open>get_var\<close> starts with the current frame and the offset \<open>-1\<close>, so it looks at
  the current frame twice and then at every frame below it, down to the base frame; the
  offset past the base frame ends it. At the head of the loop with the offset
  \<open>j - len(stack_frames) - 1\<close>, the frames still to come are the first \<open>j\<close> ones, from the top.
\<close>

lemma get_stack_frame_below:
  assumes "j < length (stack_frames s)" and "offset = int j - int (length (stack_frames s))"
  shows "get_stack_frame offset s = Return (Some (stack_frames s ! j))"
  using assms by (simp add: get_stack_frame_def py_index_def Let_def)

lemma get_stack_frame_past:
  assumes "offset = - 1 - int (length (stack_frames s))"
  shows "get_stack_frame offset s = Return None"
  using assms by (simp add: get_stack_frame_def)

lemma find_twice:
  "List.find P (x # x # xs) = List.find P (x # xs)"
  by simp

lemma rev_frames_top:
  assumes "fs \<noteq> []"
  shows "last fs # rev (take (length fs) fs) = last fs # last fs # rev (butlast fs)"
    and "rev fs = last fs # rev (butlast fs)"
proof -
  from assms have "fs = butlast fs @ [last fs]" by simp
  then have "rev fs = rev (butlast fs @ [last fs])" by simp
  then show "rev fs = last fs # rev (butlast fs)" by simp
  then show "last fs # rev (take (length fs) fs) = last fs # last fs # rev (butlast fs)" by simp
qed

lemma get_var_loop_walk:
  assumes "j \<le> length (stack_frames s)"
  shows "get_var_loop v (Some f) (int j - int (length (stack_frames s)) - 1) s =
     (case List.find (\<lambda>g. vars g (name v) \<noteq> None) (f # rev (take j (stack_frames s))) of
        Some g \<Rightarrow> Return (the (vars g (name v)))
      | None \<Rightarrow>
          Raise (InterpreterException (''no variable with name '' @ quoted (name v)) (span v)))"
  using assms
proof (induction j arbitrary: f)
  case 0
  have "get_stack_frame (int 0 - int (length (stack_frames s)) - 1) s = Return None"
    by (rule get_stack_frame_past) simp
  then show ?case
    by (subst get_var_loop.simps) (auto simp: get_var_loop.simps split: option.splits)
next
  case (Suc j)
  then have j: "j < length (stack_frames s)" by simp
  have step: "get_stack_frame (int (Suc j) - int (length (stack_frames s)) - 1) s =
      Return (Some (stack_frames s ! j))"
    by (rule get_stack_frame_below [OF j]) simp
  have next_offset: "int (Suc j) - int (length (stack_frames s)) - 1 - 1 =
      int j - int (length (stack_frames s)) - 1"
    by simp
  have IH: "get_var_loop v (Some (stack_frames s ! j))
      (int j - int (length (stack_frames s)) - 1) s =
     (case List.find (\<lambda>g. vars g (name v) \<noteq> None)
        (stack_frames s ! j # rev (take j (stack_frames s))) of
        Some g \<Rightarrow> Return (the (vars g (name v)))
      | None \<Rightarrow>
          Raise (InterpreterException (''no variable with name '' @ quoted (name v)) (span v)))"
    using Suc.IH j by simp
  show ?case
  proof (cases "vars f (name v)")
    case None
    then have "get_var_loop v (Some f) (int (Suc j) - int (length (stack_frames s)) - 1) s =
        get_var_loop v (Some (stack_frames s ! j)) (int j - int (length (stack_frames s)) - 1) s"
      by (subst get_var_loop.simps) (simp only: step next_offset option.case outcome.case)
    with None show ?thesis
      by (simp add: IH take_Suc_conv_app_nth [OF j])
  next
    case (Some x)
    then show ?thesis
      by (subst get_var_loop.simps) simp
  qed
qed

lemma get_var_walk:
  assumes "stack_frames s \<noteq> []"
  shows "get_var v s =
     (case List.find (\<lambda>g. vars g (name v) \<noteq> None) (rev (stack_frames s)) of
        Some g \<Rightarrow> Return (the (vars g (name v)))
      | None \<Rightarrow>
          Raise (InterpreterException (''no variable with name '' @ quoted (name v)) (span v)))"
proof -
  have "get_var v s = get_var_loop v (Some (last (stack_frames s)))
      (int (length (stack_frames s)) - int (length (stack_frames s)) - 1) s"
    using assms by (simp add: get_var_def current_stack_frame_def)
  also have "\<dots> =
     (case List.find (\<lambda>g. vars g (name v) \<noteq> None)
        (last (stack_frames s) # rev (take (length (stack_frames s)) (stack_frames s))) of
        Some g \<Rightarrow> Return (the (vars g (name v)))
      | None \<Rightarrow>
          Raise (InterpreterException (''no variable with name '' @ quoted (name v)) (span v)))"
    by (rule get_var_loop_walk) simp
  also have "List.find (\<lambda>g. vars g (name v) \<noteq> None)
        (last (stack_frames s) # rev (take (length (stack_frames s)) (stack_frames s))) =
      List.find (\<lambda>g. vars g (name v) \<noteq> None) (rev (stack_frames s))"
    unfolding rev_frames_top [OF assms] by (rule find_twice)
  finally show ?thesis .
qed

lemma get_function_loop_walk:
  assumes "j \<le> length (stack_frames s)"
  shows "get_function_loop v argn (Some f) (int j - int (length (stack_frames s)) - 1) s =
     (case List.find (\<lambda>g. funs g (name v, argn) \<noteq> None) (f # rev (take j (stack_frames s))) of
        Some g \<Rightarrow> Return (the (funs g (name v, argn)))
      | None \<Rightarrow>
          Raise (InterpreterException
            (''no such function '' @ quoted (name v) @ '' with '' @ str_nat argn @ '' arguments'')
            (span v)))"
  using assms
proof (induction j arbitrary: f)
  case 0
  have "get_stack_frame (int 0 - int (length (stack_frames s)) - 1) s = Return None"
    by (rule get_stack_frame_past) simp
  then show ?case
    by (subst get_function_loop.simps)
      (auto simp: get_function_loop.simps split: option.splits simp del: append.simps)
next
  case (Suc j)
  then have j: "j < length (stack_frames s)" by simp
  have step: "get_stack_frame (int (Suc j) - int (length (stack_frames s)) - 1) s =
      Return (Some (stack_frames s ! j))"
    by (rule get_stack_frame_below [OF j]) simp
  have next_offset: "int (Suc j) - int (length (stack_frames s)) - 1 - 1 =
      int j - int (length (stack_frames s)) - 1"
    by simp
  have IH: "get_function_loop v argn (Some (stack_frames s ! j))
      (int j - int (length (stack_frames s)) - 1) s =
     (case List.find (\<lambda>g. funs g (name v, argn) \<noteq> None)
        (stack_frames s ! j # rev (take j (stack_frames s))) of
        Some g \<Rightarrow> Return (the (funs g (name v, argn)))
      | None \<Rightarrow>
          Raise (InterpreterException
            (''no such function '' @ quoted (name v) @ '' with '' @ str_nat argn @ '' arguments'')
            (span v)))"
    using Suc.IH j by simp
  show ?case
  proof (cases "funs f (name v, argn)")
    case None
    then have "get_function_loop v argn (Some f)
          (int (Suc j) - int (length (stack_frames s)) - 1) s =
        get_function_loop v argn (Some (stack_frames s ! j))
          (int j - int (length (stack_frames s)) - 1) s"
      by (subst get_function_loop.simps) (simp only: step next_offset option.case outcome.case)
    also note IH
    also have "List.find (\<lambda>g. funs g (name v, argn) \<noteq> None)
          (stack_frames s ! j # rev (take j (stack_frames s))) =
        List.find (\<lambda>g. funs g (name v, argn) \<noteq> None)
          (f # rev (take (Suc j) (stack_frames s)))"
      using None by (simp add: take_Suc_conv_app_nth [OF j])
    finally show ?thesis .
  next
    case (Some x)
    then show ?thesis
      by (subst get_function_loop.simps) simp
  qed
qed

lemma get_function_walk:
  assumes "stack_frames s \<noteq> []"
  shows "get_function v argn s =
     (case List.find (\<lambda>g. funs g (name v, argn) \<noteq> None) (rev (stack_frames s)) of
        Some g \<Rightarrow> Return (the (funs g (name v, argn)))
      | None \<Rightarrow>
          Raise (InterpreterException
            (''no such function '' @ quoted (name v) @ '' with '' @ str_nat argn @ '' arguments'')
            (span v)))"
proof -
  have "get_function v argn s = get_function_loop v argn (Some (last (stack_frames s)))
      (int (length (stack_frames s)) - int (length (stack_frames s)) - 1) s"
    using assms by (simp add: get_function_def current_stack_frame_def)
  also have "\<dots> =
     (case List.find (\<lambda>g. funs g (name v, argn) \<noteq> None)
        (last (stack_frames s) # rev (take (length (stack_frames s)) (stack_frames s))) of
        Some g \<Rightarrow> Return (the (funs g (name v, argn)))
      | None \<Rightarrow>
          Raise (InterpreterException
            (''no such function '' @ quoted (name v) @ '' with '' @ str_nat argn @ '' arguments'')
            (span v)))"
    by (rule get_function_loop_walk) simp
  also have "List.find (\<lambda>g. funs g (name v, argn) \<noteq> None)
        (last (stack_frames s) # rev (take (length (stack_frames s)) (stack_frames s))) =
      List.find (\<lambda>g. funs g (name v, argn) \<noteq> None) (rev (stack_frames s))"
    unfolding rev_frames_top [OF assms] by (rule find_twice)
  finally show ?thesis .
qed

lemma find_None_all:
  "List.find P xs = None \<longleftrightarrow> (\<forall>x\<in>set xs. \<not> P x)"
  by (induction xs) auto

lemma find_unique:
  assumes "i < length xs" and "P (xs ! i)" and "\<forall>j<length xs. j \<noteq> i \<longrightarrow> \<not> P (xs ! j)"
  shows "List.find P (rev xs) = Some (xs ! i)"
proof -
  obtain y where y: "List.find P (rev xs) = Some y"
    using assms(1,2) by (cases "List.find P (rev xs)") (auto simp: find_None_all)
  then obtain k where "k < length xs" and "P (rev xs ! k)" and "y = rev xs ! k"
    by (auto simp: find_Some_iff)
  with assms(3) have "y = xs ! i"
    by (metis diff_Suc_less length_greater_0_conv list.size(3) not_less0 rev_nth
        Suc_diff_Suc diff_less_Suc less_imp_diff_less less_nat_zero_code)
  with y show ?thesis by simp
qed

lemma find_rev_topmost:
  assumes "i < length xs" and "P (xs ! i)" and "\<forall>j. i < j \<and> j < length xs \<longrightarrow> \<not> P (xs ! j)"
  shows "List.find P (rev xs) = Some (xs ! i)"
proof -
  let ?k = "length xs - Suc i"
  have k: "?k < length (rev xs)" using assms(1) by simp
  have at_k: "rev xs ! ?k = xs ! i" using assms(1) by (simp add: rev_nth)
  have before: "\<forall>j<?k. \<not> P (rev xs ! j)"
  proof (intro allI impI)
    fix j assume j: "j < ?k"
    then have "rev xs ! j = xs ! (length xs - Suc j)" by (simp add: rev_nth)
    moreover from j assms(1) have "i < length xs - Suc j \<and> length xs - Suc j < length xs" by arith
    ultimately show "\<not> P (rev xs ! j)" using assms(3) by simp
  qed
  show ?thesis
    unfolding find_Some_iff using k at_k before assms(2) by (intro exI [of _ ?k]) simp
qed

section \<open>Binding and unbinding the parameters\<close>

lemma push_zipped_effect:
  "push_zipped zs s = (Return u, s') \<Longrightarrow>
     argv s' = argv s \<and>
     length (stack_frames s') = length (stack_frames s) \<and>
     butlast (stack_frames s') = butlast (stack_frames s) \<and>
     funs (last (stack_frames s')) = funs (last (stack_frames s)) \<and>
     (\<forall>n. n \<notin> name ` fst ` set zs \<longrightarrow>
        vars (last (stack_frames s')) n = vars (last (stack_frames s)) n) \<and>
     (\<forall>n \<in> name ` fst ` set zs. vars (last (stack_frames s)) n = None)"
proof (induction zs arbitrary: s)
  case Nil
  then show ?case by simp
next
  case (Cons z zs)
  obtain a val where z: "z = (a, val)" by (cases z)
  from Cons.prems z obtain x s1 where
    p: "push_var a val s = (Return x, s1)" and r: "push_zipped zs s1 = (Return u, s')"
    by (auto simp: bind_Return_iff)
  from p have ne: "stack_frames s \<noteq> []" and fresh: "vars (last (stack_frames s)) (name a) = None"
    and s1: "s1 = set_current_frame
        ((last (stack_frames s))\<lparr>vars := (vars (last (stack_frames s)))(name a \<mapsto> val)\<rparr>) s"
    by (simp_all add: push_var_Return)
  have f1: "stack_frames s1 = butlast (stack_frames s) @
      [(last (stack_frames s))\<lparr>vars := (vars (last (stack_frames s)))(name a \<mapsto> val)\<rparr>]"
    and a1: "argv s1 = argv s"
    by (simp_all add: s1)
  note IH = Cons.IH [OF r]
  have "argv s' = argv s" using IH a1 by simp
  moreover have "length (stack_frames s') = length (stack_frames s)"
    using IH f1 ne by simp
  moreover have "butlast (stack_frames s') = butlast (stack_frames s)"
    using IH f1 by simp
  moreover have "funs (last (stack_frames s')) = funs (last (stack_frames s))"
    using IH f1 by simp
  moreover have "\<forall>n. n \<notin> name ` fst ` set (z # zs) \<longrightarrow>
        vars (last (stack_frames s')) n = vars (last (stack_frames s)) n"
    using IH f1 z by auto
  moreover have "\<forall>n \<in> name ` fst ` set (z # zs). vars (last (stack_frames s)) n = None"
  proof
    fix n assume n: "n \<in> name ` fst ` set (z # zs)"
    show "vars (last (stack_frames s)) n = None"
    proof (cases "n = name a")
      case True
      with fresh show ?thesis by simp
    next
      case False
      with n z have "n \<in> name ` fst ` set zs" by auto
      with IH have "vars (last (stack_frames s1)) n = None" by auto
      with False show ?thesis by (simp add: f1)
    qed
  qed
  ultimately show ?case by blast
qed

lemma pop_args_effect:
  "pop_args ps s = (Return vals, s') \<Longrightarrow>
     argv s' = argv s \<and>
     length (stack_frames s') = length (stack_frames s) \<and>
     butlast (stack_frames s') = butlast (stack_frames s) \<and>
     funs (last (stack_frames s')) = funs (last (stack_frames s)) \<and>
     (\<forall>n. n \<notin> name ` set ps \<longrightarrow>
        vars (last (stack_frames s')) n = vars (last (stack_frames s)) n) \<and>
     (\<forall>n \<in> name ` set ps. vars (last (stack_frames s')) n = None)"
proof (induction ps arbitrary: s vals)
  case Nil
  then show ?case by simp
next
  case (Cons a ps)
  from Cons.prems obtain x s1 vs where
    p: "pop_var a s = (Return x, s1)" and r: "pop_args ps s1 = (Return vs, s')"
    by (auto simp: bind_Return_iff)
  from p have ne: "stack_frames s \<noteq> []"
    and s1: "s1 = set_current_frame
        ((last (stack_frames s))\<lparr>vars := (vars (last (stack_frames s)))(name a := None)\<rparr>) s"
    by (simp_all add: pop_var_Return)
  have f1: "stack_frames s1 = butlast (stack_frames s) @
      [(last (stack_frames s))\<lparr>vars := (vars (last (stack_frames s)))(name a := None)\<rparr>]"
    and a1: "argv s1 = argv s"
    by (simp_all add: s1)
  note IH = Cons.IH [OF r]
  have "argv s' = argv s" using IH a1 by simp
  moreover have "length (stack_frames s') = length (stack_frames s)"
    using IH f1 ne by simp
  moreover have "butlast (stack_frames s') = butlast (stack_frames s)"
    using IH f1 by simp
  moreover have "funs (last (stack_frames s')) = funs (last (stack_frames s))"
    using IH f1 by simp
  moreover have "\<forall>n. n \<notin> name ` set (a # ps) \<longrightarrow>
        vars (last (stack_frames s')) n = vars (last (stack_frames s)) n"
    using IH f1 by auto
  moreover have "\<forall>n \<in> name ` set (a # ps). vars (last (stack_frames s')) n = None"
  proof
    fix n assume n: "n \<in> name ` set (a # ps)"
    show "vars (last (stack_frames s')) n = None"
    proof (cases "n \<in> name ` set ps")
      case True
      with IH show ?thesis by auto
    next
      case False
      with n have "n = name a" by auto
      moreover from False IH have "vars (last (stack_frames s')) n = vars (last (stack_frames s1)) n"
        by simp
      ultimately show ?thesis by (simp add: f1)
    qed
  qed
  ultimately show ?case by blast
qed

lemma push_args_pop_args_restore:
  assumes push: "push_args params values s = (Return u, s1)"
    and same: "stack_frames s2 = stack_frames s1"
    and pop: "pop_args params s2 = (Return vals, s3)"
  shows "stack_frames s3 = stack_frames s"
proof -
  from push have len: "length params = length values"
    and z: "push_zipped (zip params values) s = (Return u, s1)"
    by (auto simp: push_args_def split: if_splits)
  from len have names: "name ` fst ` set (zip params values) = name ` set params"
    by (metis map_fst_zip set_map)
  note A = push_zipped_effect [OF z, unfolded names]
  note B = pop_args_effect [OF pop, unfolded same]
  show ?thesis
  proof (rule frames_eqI)
    show "length (stack_frames s3) = length (stack_frames s)" using A B by simp
    show "butlast (stack_frames s3) = butlast (stack_frames s)" using A B by simp
    assume "stack_frames s \<noteq> []"
    have "vars (last (stack_frames s3)) = vars (last (stack_frames s))"
    proof
      fix n
      show "vars (last (stack_frames s3)) n = vars (last (stack_frames s)) n"
      proof (cases "n \<in> name ` set params")
        case True
        with A B show ?thesis by auto
      next
        case False
        with A B show ?thesis by simp
      qed
    qed
    moreover have "funs (last (stack_frames s3)) = funs (last (stack_frames s))"
      using A B by simp
    ultimately show "last (stack_frames s3) = last (stack_frames s)"
      by (simp add: frame_eq_iff)
  qed
qed

lemma push_args_below:
  assumes "push_args params values s = (Return u, s1)"
  shows "length (stack_frames s1) = length (stack_frames s)"
    and "butlast (stack_frames s1) = butlast (stack_frames s)"
  using assms push_zipped_effect [of "zip params values" s u s1]
  by (auto simp: push_args_def split: if_splits)

lemma pop_args_below:
  assumes "pop_args params s = (Return vals, s1)"
  shows "length (stack_frames s1) = length (stack_frames s)"
    and "butlast (stack_frames s1) = butlast (stack_frames s)"
  using pop_args_effect [OF assms] by simp_all

lemma push_zipped_bound:
  assumes "stack_frames s \<noteq> []" and "(a, x) \<in> set zs"
    and "vars (last (stack_frames s)) (name a) \<noteq> None"
  shows "fst (push_zipped zs s) =
    Raise (InterpreterException ''name shadowing is not supported'' EMPTY)"
  using assms
proof (induction zs arbitrary: s)
  case Nil
  then show ?case by simp
next
  case (Cons z zs)
  obtain b y where z: "z = (b, y)" by (cases z)
  show ?case
  proof (cases "vars (last (stack_frames s)) (name b) = None")
    case False
    with Cons.prems(1) have "push_var b y s =
        (Raise (InterpreterException ''name shadowing is not supported'' EMPTY), s)"
      by (intro push_var_bound)
    then show ?thesis by (simp add: z)
  next
    case True
    define s1 where "s1 = set_current_frame
        ((last (stack_frames s))\<lparr>vars := (vars (last (stack_frames s)))(name b \<mapsto> y)\<rparr>) s"
    from True Cons.prems(1) have p: "push_var b y s = (Return (), s1)"
      by (simp add: push_var_Return s1_def)
    from True Cons.prems(2,3) z have "(a, x) \<in> set zs" by auto
    moreover have "stack_frames s1 \<noteq> []" by (simp add: s1_def)
    moreover from Cons.prems(3) have "vars (last (stack_frames s1)) (name a) \<noteq> None"
      by (simp add: s1_def)
    ultimately have "fst (push_zipped zs s1) =
        Raise (InterpreterException ''name shadowing is not supported'' EMPTY)"
      by (intro Cons.IH)
    with p show ?thesis by (simp add: z)
  qed
qed

lemma lambda_Function_eval_bound:
  assumes "is_lambda fn" and "argv s (fn_id fn) = Some argvals"
    and "length argvals = length (fn_args fn)" and "stack_frames s \<noteq> []"
    and "p \<in> set (fn_args fn)" and "vars (last (stack_frames s)) (name p) \<noteq> None"
  shows "fst (Function_eval ev fn s) =
    Raise (InterpreterException ''name shadowing is not supported'' EMPTY)"
proof -
  from assms(3,5) obtain x where "(p, x) \<in> set (zip (fn_args fn) argvals)"
    by (metis in_set_impl_in_set_zip1)
  with assms(4,6) have "fst (push_zipped (zip (fn_args fn) argvals) s) =
      Raise (InterpreterException ''name shadowing is not supported'' EMPTY)"
    by (intro push_zipped_bound)
  with assms(3) have "fst (push_args (fn_args fn) argvals s) =
      Raise (InterpreterException ''name shadowing is not supported'' EMPTY)"
    by (simp add: push_args_def)
  then show ?thesis
    using assms(1,2) by (simp add: Function_eval_def fst_bind_Raise)
qed

section \<open>An evaluation that returns leaves the frames as they were\<close>

lemma map_eval_preserves:
  assumes ev: "\<And>e s r s'. ev e s = (Return r, s') \<Longrightarrow> stack_frames s' = stack_frames s"
    and "map_eval ev es s = (Return rs, s')"
  shows "stack_frames s' = stack_frames s"
  using assms(2)
proof (induction es arbitrary: s rs)
  case Nil
  then show ?case by simp
next
  case (Cons e es)
  then obtain x s1 xs where "ev e s = (Return x, s1)" and "map_eval ev es s1 = (Return xs, s')"
    by (auto simp: bind_Return_iff)
  then show ?case using ev Cons.IH by metis
qed

lemma map_eval_length:
  "map_eval ev es s = (Return rs, s') \<Longrightarrow> length rs = length es"
proof (induction es arbitrary: s rs)
  case Nil
  then show ?case by simp
next
  case (Cons e es)
  then show ?case by (auto simp: bind_Return_iff)
qed

lemma Function_eval_preserves:
  assumes ev: "\<And>e s r s'. ev e s = (Return r, s') \<Longrightarrow> stack_frames s' = stack_frames s"
    and call: "Function_eval ev fn s = (Return r, s')"
  shows "stack_frames s' = stack_frames s"
proof -
  from call obtain argvals where armed: "argv s (fn_id fn) = Some argvals"
    by (cases "argv s (fn_id fn)") (auto simp: Function_eval_def)
  show ?thesis
  proof (cases "is_lambda fn")
    case True
    with call armed obtain u s1 s2 vals s3 where
      push: "push_args (fn_args fn) argvals s = (Return u, s1)"
      and body: "ev (fn_body fn) s1 = (Return r, s2)"
      and pop: "pop_args (fn_args fn) (snd (clear_args fn s2)) = (Return vals, s3)"
      and s': "s' = s3"
      by (auto simp: Function_eval_def bind_Return_iff clear_args_def)
    have "stack_frames (snd (clear_args fn s2)) = stack_frames s1"
      using ev [OF body] by (simp add: clear_args_def)
    from push_args_pop_args_restore [OF push this pop] s' show ?thesis by simp
  next
    case False
    with call armed obtain u s1 s2 vals s3 f where
      push: "push_args (fn_args fn) argvals (snd (push_stack_frame s)) = (Return u, s1)"
      and body: "ev (fn_body fn) s1 = (Return r, s2)"
      and pop: "pop_args (fn_args fn) (snd (clear_args fn s2)) = (Return vals, s3)"
      and popf: "pop_stack_frame s3 = (Return f, s')"
      by (auto simp: Function_eval_def bind_Return_iff clear_args_def push_stack_frame_def)
    have "butlast (stack_frames s3) = butlast (stack_frames (snd (clear_args fn s2)))"
      using pop_args_below [OF pop] by simp
    also have "\<dots> = butlast (stack_frames s1)"
      using ev [OF body] by (simp add: clear_args_def)
    also have "\<dots> = butlast (stack_frames (snd (push_stack_frame s)))"
      using push_args_below [OF push] by simp
    also have "\<dots> = stack_frames s"
      by (simp add: push_stack_frame_def)
    finally have "butlast (stack_frames s3) = stack_frames s" .
    moreover from popf have "stack_frames s' = butlast (stack_frames s3)"
      by (auto simp: pop_stack_frame_def split: if_splits)
    ultimately show ?thesis by simp
  qed
qed

lemma eval_preserves:
  "eval n e s = (Return r, s') \<Longrightarrow> stack_frames s' = stack_frames s"
proof (induction n arbitrary: e s r s')
  case 0
  then show ?case by simp
next
  case (Suc n)
  note IH = Suc.IH
  show ?case
  proof (cases e)
    case (Expr sp)
    with Suc.prems show ?thesis by simp
  next
    case (Value x sp)
    with Suc.prems show ?thesis by simp
  next
    case (VarExpr v)
    with Suc.prems show ?thesis by simp
  next
    case (AdditiveExpr lhs operator rhs sp)
    with Suc.prems obtain a s1 b where "eval n lhs s = (Return a, s1)"
      and "eval n rhs s1 = (Return b, s')"
      by (auto simp: bind_Return_iff)
    then show ?thesis using IH by metis
  next
    case (ConditionExpr c sp)
    with Suc.prems obtain a where "eval n c s = (Return a, s')"
      by (auto simp: bind_Return_iff)
    then show ?thesis using IH by metis
  next
    case (ComparisonExpr lhs operator rhs sp)
    with Suc.prems obtain a s1 b where "eval n lhs s = (Return a, s1)"
      and "eval n rhs s1 = (Return b, s')"
      by (auto simp: bind_Return_iff)
    then show ?thesis using IH by metis
  next
    case (LambdaExpr nm params value_expr body sp ident)
    let ?fn = "as_fn nm params value_expr sp ident"
    from LambdaExpr Suc.prems obtain u s1 s2 f where
      push: "push_function ?fn s = (Return u, s1)"
      and body: "eval n body s1 = (Return r, s2)"
      and pop: "pop_function ?fn s2 = (Return f, s')"
      by (auto simp: bind_Return_iff)
    from push have ne: "stack_frames s \<noteq> []"
      and fresh: "funs (last (stack_frames s)) (name (fn_name ?fn), length (fn_args ?fn)) = None"
      and f1: "stack_frames s1 = butlast (stack_frames s) @
        [(last (stack_frames s))\<lparr>funs := (funs (last (stack_frames s)))
               ((name (fn_name ?fn), length (fn_args ?fn)) \<mapsto> ?fn)\<rparr>]"
      by (auto simp: push_function_Return)
    define g where "g = (last (stack_frames s1))\<lparr>funs := (funs (last (stack_frames s1)))
               ((name (fn_name ?fn), length (fn_args ?fn)) := None)\<rparr>"
    from pop have "stack_frames s' = butlast (stack_frames s2) @
        [(last (stack_frames s2))\<lparr>funs := (funs (last (stack_frames s2)))
               ((name (fn_name ?fn), length (fn_args ?fn)) := None)\<rparr>]"
      by (auto simp: pop_function_Return)
    also have "stack_frames s2 = stack_frames s1" using IH [OF body] .
    finally have "stack_frames s' = butlast (stack_frames s1) @ [g]"
      unfolding g_def .
    then have sf: "stack_frames s' = butlast (stack_frames s) @ [g]"
      by (simp add: f1)
    have "vars g = vars (last (stack_frames s))"
      by (simp add: g_def f1)
    moreover have "funs g = funs (last (stack_frames s))"
      using fresh by (auto simp: g_def f1 fun_eq_iff)
    ultimately have "butlast (stack_frames s) @ [g] = stack_frames s"
      by (rule restore_current_frame [OF ne])
    with sf show ?thesis by simp
  next
    case (LetExpr v value_expr body sp)
    from LetExpr Suc.prems obtain val s0 u s1 s2 x where
      val: "eval n value_expr s = (Return val, s0)"
      and push: "push_var v val s0 = (Return u, s1)"
      and body: "eval n body s1 = (Return r, s2)"
      and pop: "pop_var v s2 = (Return x, s')"
      by (auto simp: bind_Return_iff)
    from push have ne: "stack_frames s0 \<noteq> []"
      and fresh: "vars (last (stack_frames s0)) (name v) = None"
      and f1: "stack_frames s1 = butlast (stack_frames s0) @
        [(last (stack_frames s0))\<lparr>vars := (vars (last (stack_frames s0)))(name v \<mapsto> val)\<rparr>]"
      by (auto simp: push_var_Return)
    define g where
      "g = (last (stack_frames s1))\<lparr>vars := (vars (last (stack_frames s1)))(name v := None)\<rparr>"
    from pop have "stack_frames s' = butlast (stack_frames s2) @
        [(last (stack_frames s2))\<lparr>vars := (vars (last (stack_frames s2)))(name v := None)\<rparr>]"
      by (auto simp: pop_var_Return)
    also have "stack_frames s2 = stack_frames s1" using IH [OF body] .
    finally have "stack_frames s' = butlast (stack_frames s1) @ [g]"
      unfolding g_def .
    then have sf: "stack_frames s' = butlast (stack_frames s0) @ [g]"
      by (simp add: f1)
    have "vars g = vars (last (stack_frames s0))"
      using fresh by (auto simp: g_def f1 fun_eq_iff)
    moreover have "funs g = funs (last (stack_frames s0))"
      by (simp add: g_def f1)
    ultimately have "butlast (stack_frames s0) @ [g] = stack_frames s0"
      by (rule restore_current_frame [OF ne])
    with sf have "stack_frames s' = stack_frames s0" by simp
    with IH [OF val] show ?thesis by simp
  next
    case (FunctionCall v args sp)
    from FunctionCall Suc.prems obtain fn argvals s1 b s2 where
      args: "map_eval (eval n) args s = (Return argvals, s1)"
      and set: "set_args fn argvals s1 = (Return b, s2)"
      and call: "Function_eval (eval n) fn s2 = (Return r, s')"
      by (auto simp: bind_Return_iff)
    have "stack_frames s1 = stack_frames s"
      using IH args by (rule map_eval_preserves)
    moreover from set have "stack_frames s2 = stack_frames s1"
      by (auto simp: set_args_def split: if_splits)
    moreover have "stack_frames s' = stack_frames s2"
      using IH call by (rule Function_eval_preserves)
    ultimately show ?thesis by simp
  next
    case (IfExpr c t f sp)
    with Suc.prems obtain a s1 where c: "eval n c s = (Return a, s1)"
      and "eval n (if truthy a then t else f) s1 = (Return r, s')"
      by (auto simp: bind_Return_iff split: if_splits)
    then show ?thesis using IH by metis
  qed
qed

section \<open>The argument slot against call-local arguments\<close>

















text \<open>The evaluation with call-local arguments leaves every \<open>argv\<close> field as it found it.\<close>

lemma argv_pure: "argv s = a \<Longrightarrow> argv (snd (c, s)) = a"
  by simp

lemma argv_bind:
  assumes "argv (snd m) = a" and "\<And>x s. argv s = a \<Longrightarrow> argv (snd (f x s)) = a"
  shows "argv (snd (bind m f)) = a"
proof (cases m)
  case (Pair c s)
  with assms show ?thesis by (cases c) auto
qed

lemma argv_push_var: "argv s = a \<Longrightarrow> argv (snd (push_var v x s)) = a"
  by (simp add: push_var_def split: outcome.splits)

lemma argv_pop_var: "argv s = a \<Longrightarrow> argv (snd (pop_var v s)) = a"
  by (simp add: pop_var_def split: outcome.splits option.splits)

lemma argv_push_function: "argv s = a \<Longrightarrow> argv (snd (push_function fn s)) = a"
  by (simp add: push_function_def Let_def split: outcome.splits)

lemma argv_pop_function: "argv s = a \<Longrightarrow> argv (snd (pop_function fn s)) = a"
  by (simp add: pop_function_def Let_def split: outcome.splits option.splits)

lemma argv_push_stack_frame: "argv s = a \<Longrightarrow> argv (snd (push_stack_frame s)) = a"
  by (simp add: push_stack_frame_def)

lemma argv_pop_stack_frame: "argv s = a \<Longrightarrow> argv (snd (pop_stack_frame s)) = a"
  by (simp add: pop_stack_frame_def)

lemma argv_push_zipped: "argv s = a \<Longrightarrow> argv (snd (push_zipped zs s)) = a"
proof (induction zs arbitrary: s)
  case Nil
  then show ?case by simp
next
  case (Cons z zs)
  obtain b y where z: "z = (b, y)" by (cases z)
  show ?case
    unfolding z push_zipped.simps
    by (intro argv_bind argv_push_var Cons.prems Cons.IH)
qed

lemma argv_push_args: "argv s = a \<Longrightarrow> argv (snd (push_args ps xs s)) = a"
  by (simp add: push_args_def argv_push_zipped)

lemma argv_pop_args: "argv s = a \<Longrightarrow> argv (snd (pop_args ps s)) = a"
proof (induction ps arbitrary: s)
  case Nil
  then show ?case by simp
next
  case (Cons p ps)
  show ?case
    unfolding pop_args.simps
    by (intro argv_bind argv_pop_var Cons.prems Cons.IH argv_pure)
qed

lemma argv_map_eval:
  assumes "\<And>e s. argv s = a \<Longrightarrow> argv (snd (ev e s)) = a" and "argv s = a"
  shows "argv (snd (map_eval ev es s)) = a"
  using assms(2)
proof (induction es arbitrary: s)
  case Nil
  then show ?case by simp
next
  case (Cons e es)
  show ?case
    unfolding map_eval.simps
    by (intro argv_bind assms(1) Cons.prems Cons.IH argv_pure)
qed

lemma argv_Function_eval_call_local:
  assumes "\<And>e s. argv s = a \<Longrightarrow> argv (snd (ev e s)) = a" and "argv s = a"
  shows "argv (snd (Function_eval_call_local ev fn xs s)) = a"
proof -
  have frame_in: "argv (snd (if \<not> is_lambda fn then push_stack_frame s else (Return (), s))) = a"
    using assms(2) by (simp add: argv_push_stack_frame)
  have frame_out: "\<And>s. argv s = a \<Longrightarrow>
      argv (snd (if \<not> is_lambda fn then bind (pop_stack_frame s) (\<lambda>_ s. (Return (), s))
         else (Return (), s))) = a"
    by (auto intro!: argv_bind argv_pop_stack_frame)
  show ?thesis
    unfolding Function_eval_call_local_def
    by (intro argv_bind frame_in argv_push_args assms(1) argv_pop_args frame_out argv_pure)
qed

lemma eval_call_local_argv:
  "argv s = a \<Longrightarrow> argv (snd (eval_call_local n e s)) = a"
proof (induction n arbitrary: e s)
  case 0
  then show ?case by simp
next
  case (Suc n)
  note a = Suc.prems
  note IH = Suc.IH
  show ?case
  proof (cases e)
    case (FunctionCall v args sp)
    have call: "argv (snd (if length xs \<noteq> length (fn_args fn)
         then (Raise (Exception
                 ''Interpreter Error: Calling function with wrong number of arguments.''), t)
         else Function_eval_call_local (eval_call_local n) fn xs t)) = a"
      if "argv t = a" for fn xs t
      using that IH by (simp add: argv_Function_eval_call_local)
    have look: "argv (snd (get_function v (length args) s, s)) = a"
      using a by simp
    show ?thesis
      unfolding FunctionCall eval_call_local.simps
      by (intro argv_bind look argv_map_eval IH call)
  next
    case (IfExpr c tr fl sp)
    show ?thesis
      unfolding IfExpr eval_call_local.simps
      by (rule argv_bind) (simp_all add: IH a)
  next
    case (Expr sp)
    with a show ?thesis by simp
  next
    case (Value x sp)
    with a show ?thesis by simp
  next
    case (VarExpr v)
    with a show ?thesis by simp
  next
    case (AdditiveExpr lhs operator rhs sp)
    show ?thesis
      unfolding AdditiveExpr eval_call_local.simps
      by (intro argv_bind IH a argv_pure)
  next
    case (ConditionExpr c sp)
    show ?thesis
      unfolding ConditionExpr eval_call_local.simps
      by (intro argv_bind IH a argv_pure)
  next
    case (ComparisonExpr lhs operator rhs sp)
    show ?thesis
      unfolding ComparisonExpr eval_call_local.simps
      by (intro argv_bind IH a argv_pure)
  next
    case (LambdaExpr nm params value_expr body sp ident)
    show ?thesis
      unfolding LambdaExpr eval_call_local.simps
      by (intro argv_bind IH a argv_pure argv_push_function argv_pop_function)
  next
    case (LetExpr v value_expr body sp)
    show ?thesis
      unfolding LetExpr eval_call_local.simps
      by (intro argv_bind IH a argv_pure argv_push_var argv_pop_var)
  qed
qed

section \<open>The example programs\<close>

text \<open>
  The tests of the source pass in the model (\<open>test_condition_expr\<close> is the instance of
  claim C8 below), and the recursive function returns \<open>0 + 1 + 2 + 3\<close> under either
  evaluation, while a depth of 10 is not enough for it.
\<close>

lemma run_registers_sum:
  "run 0 [FunctionDecl sum_fn] Context = (Return (), sum_registered)"
  by (simp add: sum_registered_def Context_def push_function_def current_stack_frame_def
      set_current_frame_def empty_frame_def sum_fn_def eval_nat_numeral)

lemma test_simple_function:
  "fst (eval 5 sum_call sum_registered) = Return (Val 9 EMPTY)"
  by code_simp

lemma test_simple_lambda_expr:
  "fst (eval 5
     (LambdaExpr ''lambda'' [Var ''a'' EMPTY, Var ''b'' EMPTY]
        (AdditiveExpr (VarExpr (Var ''a'' EMPTY)) ADDITION (VarExpr (Var ''b'' EMPTY)) EMPTY)
        lambda_call EMPTY 1) Context) = Return (Val 5 EMPTY)"
  by code_simp

lemma test_let_expr:
  "fst (eval 3 let_expr Context) = Return (Val 5 EMPTY)"
  by code_simp

lemma test_additive_expr:
  "fst (eval 2 (AdditiveExpr (Value 4 EMPTY) ADDITION (Value 4 EMPTY) EMPTY) Context) =
     Return (Val 8 EMPTY)"
  by code_simp

lemma test_comparison_expr:
  "fst (eval 2 (ComparisonExpr (Value 0 EMPTY) GT (Value (- 1) EMPTY) EMPTY) Context) =
     Return (Bool True) \<and>
   fst (eval 2 (ComparisonExpr (Value 0 EMPTY) GT (Value 1 EMPTY) EMPTY) Context) =
     Return (Bool False) \<and>
   fst (eval 2 (ComparisonExpr (Value (- 1) EMPTY) GTE (Value (- 1) EMPTY) EMPTY) Context) =
     Return (Bool True) \<and>
   fst (eval 2 (ComparisonExpr (Value 0 EMPTY) GTE (Value 1 EMPTY) EMPTY) Context) =
     Return (Bool False) \<and>
   fst (eval 2 (ComparisonExpr (Value 0 EMPTY) LT (Value 1 EMPTY) EMPTY) Context) =
     Return (Bool True) \<and>
   fst (eval 2 (ComparisonExpr (Value 0 EMPTY) LT (Value (- 1) EMPTY) EMPTY) Context) =
     Return (Bool False) \<and>
   fst (eval 2 (ComparisonExpr (Value 1 EMPTY) LTE (Value 1 EMPTY) EMPTY) Context) =
     Return (Bool True) \<and>
   fst (eval 2 (ComparisonExpr (Value 0 EMPTY) LTE (Value (- 1) EMPTY) EMPTY) Context) =
     Return (Bool False) \<and>
   fst (eval 2 (ComparisonExpr (Value 0 EMPTY) EQ (Value 0 EMPTY) EMPTY) Context) =
     Return (Bool True) \<and>
   fst (eval 2 (ComparisonExpr (Value (- 1) EMPTY) EQ (Value 1 EMPTY) EMPTY) Context) =
     Return (Bool False) \<and>
   fst (eval 2 (ComparisonExpr (Value 0 EMPTY) NEQ (Value (- 1) EMPTY) EMPTY) Context) =
     Return (Bool True) \<and>
   fst (eval 2 (ComparisonExpr (Value 0 EMPTY) NEQ (Value 0 EMPTY) EMPTY) Context) =
     Return (Bool False)"
  by code_simp

lemma recursive_call_example:
  "fst (eval 20 down_call down_registered) = Return (Val 6 EMPTY) \<and>
   fst (eval_call_local 20 down_call down_registered) = Return (Val 6 EMPTY) \<and>
   fst (eval 10 down_call down_registered) = OutOfFuel"
  by code_simp

section \<open>The claims\<close>

subsection \<open>C1: recursion through one \<open>Function\<close> object\<close>


subsection \<open>C2: \<open>LetExpr\<close> and its binding\<close>

text \<open>
  Claim C2 says that \<open>LetExpr\<close> removes its binding from the current frame on every exit
  path, also when the body raises. \<open>LetExpr.eval\<close> has no handler, and \<open>pop_var\<close> is not
  reached when the body raises: \<open>let a = 5 in b\<close>, evaluated in a fresh \<open>Context\<close>, raises the
  exception of the lookup of \<open>b\<close>, and \<open>a\<close>, which was not bound before, is bound to 5.0 in
  the current frame afterwards.
\<close>

theorem LetExpr_keeps_binding_when_body_raises:
  "fst (eval 3 let_unbound Context) =
     Raise (InterpreterException (''no variable with name '' @ quoted ''b'') EMPTY) \<and>
   vars (last (stack_frames Context)) ''a'' = None \<and>
   vars (last (stack_frames (snd (eval 3 let_unbound Context)))) ''a'' = Some (Val 5 EMPTY)"
  by code_simp

text \<open>
  Claim C2, amended: once \<open>value_expr\<close> has evaluated to a result and the name has been bound
  to it in the current frame, a body that returns makes \<open>LetExpr\<close> return the result of the
  body after unbinding the name, so that the frames are those from before the \<open>LetExpr\<close> and
  the name is not bound in the current frame; a body that raises makes \<open>LetExpr\<close> raise the
  same exception, in the state in which the body left it, without unbinding.
\<close>

theorem LetExpr_unbinds_when_body_returns:
  "eval n value_expr s = (Return val, s1) \<and> push_var v val s1 = (Return u, s2) \<longrightarrow>
     (eval n body s2 = (Return r, s3) \<longrightarrow>
        eval (Suc n) (LetExpr v value_expr body sp) s = (Return r, snd (pop_var v s3)) \<and>
        stack_frames (snd (pop_var v s3)) = stack_frames s \<and>
        vars (last (stack_frames (snd (pop_var v s3)))) (name v) = None) \<and>
     (eval n body s2 = (Raise e, s3) \<longrightarrow>
        eval (Suc n) (LetExpr v value_expr body sp) s = (Raise e, s3))"
proof (intro impI conjI)
  assume a: "eval n value_expr s = (Return val, s1) \<and> push_var v val s1 = (Return u, s2)"
    and body: "eval n body s2 = (Return r, s3)"
  from a have s1: "stack_frames s1 = stack_frames s"
    by (auto dest: eval_preserves)
  from a have ne: "stack_frames s1 \<noteq> []"
    and fresh: "vars (last (stack_frames s1)) (name v) = None"
    and f2: "stack_frames s2 = butlast (stack_frames s1) @
        [(last (stack_frames s1))\<lparr>vars := (vars (last (stack_frames s1)))(name v \<mapsto> val)\<rparr>]"
    by (auto simp: push_var_Return)
  from body have f3: "stack_frames s3 = stack_frames s2"
    by (rule eval_preserves)
  have bound: "stack_frames s3 \<noteq> []" "vars (last (stack_frames s3)) (name v) = Some val"
    by (simp_all add: f3 f2)
  define s4 where "s4 = snd (pop_var v s3)"
  from bound have pop: "pop_var v s3 = (Return val, s4)"
    by (simp add: s4_def pop_var_def current_stack_frame_def)
  with a body have "eval (Suc n) (LetExpr v value_expr body sp) s = (Return r, s4)"
    by auto
  then show ret: "eval (Suc n) (LetExpr v value_expr body sp) s = (Return r, snd (pop_var v s3))"
    by (simp add: s4_def)
  then show "stack_frames (snd (pop_var v s3)) = stack_frames s"
    by (rule eval_preserves)
  with fresh s1 show "vars (last (stack_frames (snd (pop_var v s3)))) (name v) = None"
    by simp
next
  assume "eval n value_expr s = (Return val, s1) \<and> push_var v val s1 = (Return u, s2)"
    and "eval n body s2 = (Raise e, s3)"
  then show "eval (Suc n) (LetExpr v value_expr body sp) s = (Raise e, s3)"
    by simp
qed

text \<open>The amended claim C2 at \<open>let a = 5 in a\<close> and at \<open>let a = 5 in b\<close>, in a fresh \<open>Context\<close>.\<close>

theorem LetExpr_unbinds_when_body_returns_witness:
  "eval (Suc 2) let_expr Context =
     (Return (Val 5 EMPTY),
      snd (pop_var (Var ''a'' EMPTY) (snd (push_var (Var ''a'' EMPTY) (Val 5 EMPTY) Context)))) \<and>
   stack_frames
     (snd (pop_var (Var ''a'' EMPTY) (snd (push_var (Var ''a'' EMPTY) (Val 5 EMPTY) Context)))) =
     stack_frames Context \<and>
   vars (last (stack_frames
     (snd (pop_var (Var ''a'' EMPTY) (snd (push_var (Var ''a'' EMPTY) (Val 5 EMPTY) Context))))))
     ''a'' = None \<and>
   eval (Suc 2) let_unbound Context =
     (Raise (InterpreterException (''no variable with name '' @ quoted ''b'') EMPTY),
      snd (push_var (Var ''a'' EMPTY) (Val 5 EMPTY) Context))"
proof -
  define s2 where "s2 = snd (push_var (Var ''a'' EMPTY) (Val 5 EMPTY) Context)"
  have hv: "eval 2 (Value 5 EMPTY) Context = (Return (Val 5 EMPTY), Context)"
    by (simp add: eval_nat_numeral)
  have "fst (push_var (Var ''a'' EMPTY) (Val 5 EMPTY) Context) = Return ()"
    by (simp add: push_var_def current_stack_frame_def Context_def empty_frame_def)
  then have hp: "push_var (Var ''a'' EMPTY) (Val 5 EMPTY) Context = (Return (), s2)"
    unfolding s2_def by (metis prod.collapse)
  have "fst (eval 2 (VarExpr (Var ''a'' EMPTY))
      (snd (push_var (Var ''a'' EMPTY) (Val 5 EMPTY) Context))) = Return (Val 5 EMPTY)"
    by code_simp
  moreover have "snd (eval 2 (VarExpr (Var ''a'' EMPTY)) s2) = s2"
    by (simp add: eval_nat_numeral)
  ultimately have hb: "eval 2 (VarExpr (Var ''a'' EMPTY)) s2 = (Return (Val 5 EMPTY), s2)"
    unfolding s2_def by (metis prod.collapse)
  have "fst (eval 2 (VarExpr (Var ''b'' EMPTY))
      (snd (push_var (Var ''a'' EMPTY) (Val 5 EMPTY) Context))) =
      Raise (InterpreterException (''no variable with name '' @ quoted ''b'') EMPTY)"
    by code_simp
  moreover have "snd (eval 2 (VarExpr (Var ''b'' EMPTY)) s2) = s2"
    by (simp add: eval_nat_numeral)
  ultimately have hr: "eval 2 (VarExpr (Var ''b'' EMPTY)) s2 =
      (Raise (InterpreterException (''no variable with name '' @ quoted ''b'') EMPTY), s2)"
    unfolding s2_def by (metis prod.collapse)
  from LetExpr_unbinds_when_body_returns
    [where n = 2 and value_expr = "Value 5 EMPTY" and s = Context and val = "Val 5 EMPTY"
       and ?s1.0 = Context and v = "Var ''a'' EMPTY" and u = "()" and ?s2.0 = s2
       and body = "VarExpr (Var ''a'' EMPTY)" and r = "Val 5 EMPTY" and ?s3.0 = s2 and sp = EMPTY]
    hv hp hb
  have 1: "eval (Suc 2) (LetExpr (Var ''a'' EMPTY) (Value 5 EMPTY) (VarExpr (Var ''a'' EMPTY)) EMPTY)
        Context = (Return (Val 5 EMPTY), snd (pop_var (Var ''a'' EMPTY) s2)) \<and>
      stack_frames (snd (pop_var (Var ''a'' EMPTY) s2)) = stack_frames Context \<and>
      vars (last (stack_frames (snd (pop_var (Var ''a'' EMPTY) s2)))) (name (Var ''a'' EMPTY)) = None"
    by blast
  from LetExpr_unbinds_when_body_returns
    [where n = 2 and value_expr = "Value 5 EMPTY" and s = Context and val = "Val 5 EMPTY"
       and ?s1.0 = Context and v = "Var ''a'' EMPTY" and u = "()" and ?s2.0 = s2
       and body = "VarExpr (Var ''b'' EMPTY)" and ?s3.0 = s2 and sp = EMPTY
       and e = "InterpreterException (''no variable with name '' @ quoted ''b'') EMPTY"]
    hv hp hr
  have 2: "eval (Suc 2) (LetExpr (Var ''a'' EMPTY) (Value 5 EMPTY) (VarExpr (Var ''b'' EMPTY)) EMPTY)
        Context =
      (Raise (InterpreterException (''no variable with name '' @ quoted ''b'') EMPTY), s2)"
    by blast
  have "name (Var ''a'' EMPTY) = ''a''" by simp
  with 1 2 show ?thesis
    unfolding let_expr_def let_unbound_def s2_def by metis
qed

subsection \<open>C3: \<open>Program.run\<close>\<close>

text \<open>
  Claim C3 says that \<open>Program.run\<close> evaluates every declaration that is an expression and
  discards its result. \<open>run\<close> compares \<open>type(statement)\<close> with \<open>Expr\<close> by \<open>==\<close>, which
  holds for no instance of a subclass: here the code is run on the program whose one
  statement is the expression \<open>Value(1.0)\<close>, and it raises
  \<open>TypeError("Expected Function or Expr")\<close> without evaluating it.
\<close>

theorem run_rejects_expression_statement:
  "run n [ExprDecl (Value 1 EMPTY)] Context =
     (Raise (TypeError ''Expected Function or Expr''), Context)"
  by simp

subsection \<open>C4: a call leaves no frame and no binding behind\<close>

text \<open>
  Claim C4: when the call of a function returns, lambda or not, the context has as many
  frames as before the call and the variables of the current frame are those from before
  the call; indeed the whole list of frames is as before. It is stated for \<open>Function.eval\<close>
  and for \<open>FunctionCall.eval\<close>.
\<close>

theorem function_call_restores_frames:
  "(Function_eval (eval n) fn s = (Return r, s') \<longrightarrow>
      length (stack_frames s') = length (stack_frames s) \<and>
      vars (last (stack_frames s')) = vars (last (stack_frames s)) \<and>
      stack_frames s' = stack_frames s) \<and>
   (eval n (FunctionCall v args sp) s = (Return r, s') \<longrightarrow>
      length (stack_frames s') = length (stack_frames s) \<and>
      vars (last (stack_frames s')) = vars (last (stack_frames s)) \<and>
      stack_frames s' = stack_frames s)"
proof (intro conjI impI)
  assume "Function_eval (eval n) fn s = (Return r, s')"
  with eval_preserves have "stack_frames s' = stack_frames s"
    by (rule Function_eval_preserves)
  then show "length (stack_frames s') = length (stack_frames s)"
    and "vars (last (stack_frames s')) = vars (last (stack_frames s))"
    and "stack_frames s' = stack_frames s"
    by simp_all
next
  assume "eval n (FunctionCall v args sp) s = (Return r, s')"
  then have "stack_frames s' = stack_frames s"
    by (rule eval_preserves)
  then show "length (stack_frames s') = length (stack_frames s)"
    and "vars (last (stack_frames s')) = vars (last (stack_frames s))"
    and "stack_frames s' = stack_frames s"
    by simp_all
qed

text \<open>
  Claim C4 at the call \<open>sum(4.0, 5.0)\<close>, as a \<open>FunctionCall\<close> and as \<open>Function.eval\<close> after
  \<open>set_args\<close>, and at the call \<open>lambda(4.0, 1.0)\<close> of the lambda.
\<close>

theorem function_call_restores_frames_witness:
  "fst (eval 5 sum_call sum_registered) = Return (Val 9 EMPTY) \<and>
   stack_frames (snd (eval 5 sum_call sum_registered)) = stack_frames sum_registered \<and>
   fst (eval 5 lambda_call lambda_registered) = Return (Val 5 EMPTY) \<and>
   stack_frames (snd (eval 5 lambda_call lambda_registered)) = stack_frames lambda_registered \<and>
   fst (Function_eval (eval 4) sum_fn (snd (set_args sum_fn [Val 4 EMPTY, Val 5 EMPTY] sum_registered))) =
     Return (Val 9 EMPTY) \<and>
   stack_frames (snd (Function_eval (eval 4) sum_fn
       (snd (set_args sum_fn [Val 4 EMPTY, Val 5 EMPTY] sum_registered)))) =
     stack_frames sum_registered"
proof -
  have 1: "fst (eval 5 sum_call sum_registered) = Return (Val 9 EMPTY)"
    by code_simp
  have 2: "fst (eval 5 lambda_call lambda_registered) = Return (Val 5 EMPTY)"
    by code_simp
  have 3: "fst (Function_eval (eval 4) sum_fn
      (snd (set_args sum_fn [Val 4 EMPTY, Val 5 EMPTY] sum_registered))) = Return (Val 9 EMPTY)"
    by code_simp
  have 4: "stack_frames (snd (set_args sum_fn [Val 4 EMPTY, Val 5 EMPTY] sum_registered)) =
      stack_frames sum_registered"
    by (simp add: set_args_def)
  from 1 have "eval 5 (FunctionCall (Var ''sum'' EMPTY) [Value 4 EMPTY, Value 5 EMPTY] EMPTY)
      sum_registered = (Return (Val 9 EMPTY), snd (eval 5 sum_call sum_registered))"
    unfolding sum_call_def by (metis prod.collapse)
  with function_call_restores_frames
    [where n = 5 and v = "Var ''sum'' EMPTY" and args = "[Value 4 EMPTY, Value 5 EMPTY]"
       and sp = EMPTY and s = sum_registered and r = "Val 9 EMPTY"
       and s' = "snd (eval 5 sum_call sum_registered)"]
  have a: "stack_frames (snd (eval 5 sum_call sum_registered)) = stack_frames sum_registered"
    by blast
  from 2 have "eval 5 (FunctionCall (Var ''lambda'' EMPTY) [Value 4 EMPTY, Value 1 EMPTY] EMPTY)
      lambda_registered = (Return (Val 5 EMPTY), snd (eval 5 lambda_call lambda_registered))"
    unfolding lambda_call_def by (metis prod.collapse)
  with function_call_restores_frames
    [where n = 5 and v = "Var ''lambda'' EMPTY" and args = "[Value 4 EMPTY, Value 1 EMPTY]"
       and sp = EMPTY and s = lambda_registered and r = "Val 5 EMPTY"
       and s' = "snd (eval 5 lambda_call lambda_registered)"]
  have b: "stack_frames (snd (eval 5 lambda_call lambda_registered)) =
      stack_frames lambda_registered"
    by blast
  from 3 have "Function_eval (eval 4) sum_fn
      (snd (set_args sum_fn [Val 4 EMPTY, Val 5 EMPTY] sum_registered)) =
      (Return (Val 9 EMPTY), snd (Function_eval (eval 4) sum_fn
         (snd (set_args sum_fn [Val 4 EMPTY, Val 5 EMPTY] sum_registered))))"
    by (metis prod.collapse)
  with function_call_restores_frames
    [where n = 4 and fn = sum_fn
       and s = "snd (set_args sum_fn [Val 4 EMPTY, Val 5 EMPTY] sum_registered)"
       and r = "Val 9 EMPTY"
       and s' = "snd (Function_eval (eval 4) sum_fn
         (snd (set_args sum_fn [Val 4 EMPTY, Val 5 EMPTY] sum_registered)))"]
  have c: "stack_frames (snd (Function_eval (eval 4) sum_fn
       (snd (set_args sum_fn [Val 4 EMPTY, Val 5 EMPTY] sum_registered)))) =
     stack_frames (snd (set_args sum_fn [Val 4 EMPTY, Val 5 EMPTY] sum_registered))"
    by blast
  from 1 2 3 a b c 4 show ?thesis by simp
qed

subsection \<open>C5: lookup of a variable\<close>

text \<open>
  Claim C5: in a context whose frames are \<open>f0 \<dots> fk\<close>, a name bound in the frame \<open>fi\<close> and in
  no other frame is found by \<open>get_var\<close>, which returns the binding of \<open>fi\<close>, whatever the
  position \<open>i\<close> of the frame under the current one. In a context with at least one frame,
  \<open>get_var\<close> raises the exception "no variable with name ..." when no frame binds the name,
  and it raises at all only then.
\<close>

theorem get_var_walks_down_all_frames:
  "(i < length (stack_frames s) \<and> vars (stack_frames s ! i) n = Some x \<and>
    (\<forall>j<length (stack_frames s). j \<noteq> i \<longrightarrow> vars (stack_frames s ! j) n = None) \<longrightarrow>
      get_var (Var n sp) s = Return x) \<and>
   (stack_frames s \<noteq> [] \<longrightarrow>
      ((\<forall>f\<in>set (stack_frames s). vars f n = None) \<longrightarrow>
         get_var (Var n sp) s =
           Raise (InterpreterException (''no variable with name '' @ quoted n) sp)) \<and>
      ((\<exists>e. get_var (Var n sp) s = Raise e) \<longrightarrow>
         (\<forall>f\<in>set (stack_frames s). vars f n = None)))"
proof (intro conjI impI)
  assume a: "i < length (stack_frames s) \<and> vars (stack_frames s ! i) n = Some x \<and>
    (\<forall>j<length (stack_frames s). j \<noteq> i \<longrightarrow> vars (stack_frames s ! j) n = None)"
  then have ne: "stack_frames s \<noteq> []" by auto
  from a have "List.find (\<lambda>g. vars g n \<noteq> None) (rev (stack_frames s)) = Some (stack_frames s ! i)"
    by (intro find_unique) auto
  with a show "get_var (Var n sp) s = Return x"
    by (simp add: get_var_walk [OF ne])
next
  assume ne: "stack_frames s \<noteq> []" and "\<forall>f\<in>set (stack_frames s). vars f n = None"
  then have "List.find (\<lambda>g. vars g n \<noteq> None) (rev (stack_frames s)) = None"
    by (simp add: find_None_all)
  then show "get_var (Var n sp) s =
      Raise (InterpreterException (''no variable with name '' @ quoted n) sp)"
    by (simp add: get_var_walk [OF ne])
next
  assume ne: "stack_frames s \<noteq> []" and "\<exists>e. get_var (Var n sp) s = Raise e"
  then have "List.find (\<lambda>g. vars g n \<noteq> None) (rev (stack_frames s)) = None"
    by (auto simp: get_var_walk [OF ne] split: option.splits)
  then show "\<forall>f\<in>set (stack_frames s). vars f n = None"
    by (simp add: find_None_all)
qed

text \<open>
  Claim C5 in the context of two frames whose base frame binds \<open>a\<close>: from the current frame,
  \<open>a\<close> is found and \<open>b\<close> is not.
\<close>

theorem get_var_walks_down_all_frames_witness:
  "(0::nat) < length (stack_frames two_frames) \<and>
   vars (stack_frames two_frames ! 0) ''a'' = Some (Val 5 EMPTY) \<and>
   vars (stack_frames two_frames ! 1) ''a'' = None \<and>
   get_var (Var ''a'' EMPTY) two_frames = Return (Val 5 EMPTY) \<and>
   stack_frames two_frames \<noteq> [] \<and>
   vars (stack_frames two_frames ! 0) ''b'' = None \<and>
   vars (stack_frames two_frames ! 1) ''b'' = None \<and>
   get_var (Var ''b'' EMPTY) two_frames =
     Raise (InterpreterException (''no variable with name '' @ quoted ''b'') EMPTY)"
proof -
  have h: "(0::nat) < length (stack_frames two_frames) \<and>
     vars (stack_frames two_frames ! 0) ''a'' = Some (Val 5 EMPTY) \<and>
     (\<forall>j<length (stack_frames two_frames). j \<noteq> 0 \<longrightarrow>
        vars (stack_frames two_frames ! j) ''a'' = None)"
    by (simp add: two_frames_def empty_frame_def less_Suc_eq)
  have g: "stack_frames two_frames \<noteq> []"
    "\<forall>f\<in>set (stack_frames two_frames). vars f ''b'' = None"
    by (simp_all add: two_frames_def empty_frame_def)
  from get_var_walks_down_all_frames [of 0 two_frames "''a''" "Val 5 EMPTY" EMPTY] h
  have 1: "get_var (Var ''a'' EMPTY) two_frames = Return (Val 5 EMPTY)"
    by blast
  from get_var_walks_down_all_frames [of 0 two_frames "''b''" "Val 5 EMPTY" EMPTY] g
  have 2: "get_var (Var ''b'' EMPTY) two_frames =
      Raise (InterpreterException (''no variable with name '' @ quoted ''b'') EMPTY)"
    by blast
  have "vars (stack_frames two_frames ! 1) ''a'' = None"
    "vars (stack_frames two_frames ! 0) ''b'' = None"
    "vars (stack_frames two_frames ! 1) ''b'' = None"
    by (simp_all add: two_frames_def empty_frame_def)
  with h g 1 2 show ?thesis by blast
qed

subsection \<open>C6: binding twice\<close>

text \<open>
  Claim C6: if \<open>push_var\<close> has bound a name in the current frame, binding the same name
  again right after fails with the exception "name shadowing is not supported"; if
  \<open>push_function\<close> has registered a function, registering one with the same name and the
  same number of parameters right after fails with the exception "function ... is already
  defined, and name shadowing is not supported". In both cases the state after the failed
  second binding is the state before it.
\<close>

theorem binding_twice_is_Shadowing:
  "(push_var v val s = (Return u, s') \<and> name v' = name v \<longrightarrow>
      push_var v' val' s' =
        (Raise (InterpreterException ''name shadowing is not supported'' EMPTY), s')) \<and>
   (push_function fn s = (Return u, s') \<and> name (fn_name fn') = name (fn_name fn) \<and>
    length (fn_args fn') = length (fn_args fn) \<longrightarrow>
      push_function fn' s' =
        (Raise (InterpreterException
           (''function '' @ quoted (name (fn_name fn')) @ '' with '' @
            str_nat (length (fn_args fn')) @
            '' arguments is already defined, and name shadowing is not supported'')
           (fn_span fn')), s'))"
proof (intro conjI impI)
  assume a: "push_var v val s = (Return u, s') \<and> name v' = name v"
  then have "stack_frames s' \<noteq> []" and "vars (last (stack_frames s')) (name v') \<noteq> None"
    by (auto simp: push_var_Return)
  then show "push_var v' val' s' =
        (Raise (InterpreterException ''name shadowing is not supported'' EMPTY), s')"
    by (rule push_var_bound)
next
  assume a: "push_function fn s = (Return u, s') \<and> name (fn_name fn') = name (fn_name fn) \<and>
    length (fn_args fn') = length (fn_args fn)"
  then have "stack_frames s' \<noteq> []"
    and "funs (last (stack_frames s')) (name (fn_name fn'), length (fn_args fn')) \<noteq> None"
    by (auto simp: push_function_Return)
  then show "push_function fn' s' =
        (Raise (InterpreterException
           (''function '' @ quoted (name (fn_name fn')) @ '' with '' @
            str_nat (length (fn_args fn')) @
            '' arguments is already defined, and name shadowing is not supported'')
           (fn_span fn')), s')"
    by (rule push_function_bound)
qed

text \<open>
  Claim C6 in a fresh \<open>Context\<close>: the variable \<open>a\<close> bound twice, and two functions \<open>f\<close> of one
  parameter registered one after the other.
\<close>

theorem binding_twice_is_Shadowing_witness:
  "fst (push_var (Var ''a'' EMPTY) (Val 1 EMPTY) Context) = Return () \<and>
   push_var (Var ''a'' (Span 4 5 ''a'')) (Val 2 EMPTY)
       (snd (push_var (Var ''a'' EMPTY) (Val 1 EMPTY) Context)) =
     (Raise (InterpreterException ''name shadowing is not supported'' EMPTY),
      snd (push_var (Var ''a'' EMPTY) (Val 1 EMPTY) Context)) \<and>
   fst (push_function (as_fn ''f'' [Var ''x'' EMPTY] (Value 1 EMPTY) EMPTY 0) Context) = Return () \<and>
   fst (push_function (as_fn ''f'' [Var ''y'' EMPTY] (Value 2 EMPTY) EMPTY 1)
       (snd (push_function (as_fn ''f'' [Var ''x'' EMPTY] (Value 1 EMPTY) EMPTY 0) Context))) =
     Raise (InterpreterException
       (''function '' @ quoted ''f'' @ '' with '' @ str_nat 1 @
        '' arguments is already defined, and name shadowing is not supported'') EMPTY) \<and>
   snd (push_function (as_fn ''f'' [Var ''y'' EMPTY] (Value 2 EMPTY) EMPTY 1)
       (snd (push_function (as_fn ''f'' [Var ''x'' EMPTY] (Value 1 EMPTY) EMPTY 0) Context))) =
     snd (push_function (as_fn ''f'' [Var ''x'' EMPTY] (Value 1 EMPTY) EMPTY 0) Context)"
proof -
  have v1: "fst (push_var (Var ''a'' EMPTY) (Val 1 EMPTY) Context) = Return ()"
    by (simp add: push_var_def current_stack_frame_def Context_def empty_frame_def)
  have f1: "fst (push_function (as_fn ''f'' [Var ''x'' EMPTY] (Value 1 EMPTY) EMPTY 0) Context) =
      Return ()"
    by (simp add: push_function_def current_stack_frame_def Context_def Let_def empty_frame_def)
  have v: "push_var (Var ''a'' EMPTY) (Val 1 EMPTY) Context =
      (Return (), snd (push_var (Var ''a'' EMPTY) (Val 1 EMPTY) Context))"
    by (metis v1 prod.collapse)
  have f: "push_function (as_fn ''f'' [Var ''x'' EMPTY] (Value 1 EMPTY) EMPTY 0) Context =
      (Return (), snd (push_function (as_fn ''f'' [Var ''x'' EMPTY] (Value 1 EMPTY) EMPTY 0) Context))"
    by (metis f1 prod.collapse)
  have n: "name (Var ''a'' (Span 4 5 ''a'')) = name (Var ''a'' EMPTY)"
    by simp
  have g: "name (fn_name (as_fn ''f'' [Var ''y'' EMPTY] (Value 2 EMPTY) EMPTY 1)) =
        name (fn_name (as_fn ''f'' [Var ''x'' EMPTY] (Value 1 EMPTY) EMPTY 0)) \<and>
      length (fn_args (as_fn ''f'' [Var ''y'' EMPTY] (Value 2 EMPTY) EMPTY 1)) =
        length (fn_args (as_fn ''f'' [Var ''x'' EMPTY] (Value 1 EMPTY) EMPTY 0))"
    by (simp add: as_fn_def)
  from binding_twice_is_Shadowing
    [of "Var ''a'' EMPTY" "Val 1 EMPTY" Context "()"
        "snd (push_var (Var ''a'' EMPTY) (Val 1 EMPTY) Context)"
        "Var ''a'' (Span 4 5 ''a'')" "Val 2 EMPTY"]
    v n
  have 1: "push_var (Var ''a'' (Span 4 5 ''a'')) (Val 2 EMPTY)
       (snd (push_var (Var ''a'' EMPTY) (Val 1 EMPTY) Context)) =
     (Raise (InterpreterException ''name shadowing is not supported'' EMPTY),
      snd (push_var (Var ''a'' EMPTY) (Val 1 EMPTY) Context))"
    by blast
  from binding_twice_is_Shadowing
    [where fn = "as_fn ''f'' [Var ''x'' EMPTY] (Value 1 EMPTY) EMPTY 0" and s = Context
       and u = "()" and fn' = "as_fn ''f'' [Var ''y'' EMPTY] (Value 2 EMPTY) EMPTY 1"
       and s' = "snd (push_function (as_fn ''f'' [Var ''x'' EMPTY] (Value 1 EMPTY) EMPTY 0) Context)"]
    f g
  have 2: "push_function (as_fn ''f'' [Var ''y'' EMPTY] (Value 2 EMPTY) EMPTY 1)
       (snd (push_function (as_fn ''f'' [Var ''x'' EMPTY] (Value 1 EMPTY) EMPTY 0) Context)) =
     (Raise (InterpreterException
        (''function '' @ quoted (name (fn_name (as_fn ''f'' [Var ''y'' EMPTY] (Value 2 EMPTY) EMPTY 1))) @
         '' with '' @ str_nat (length (fn_args (as_fn ''f'' [Var ''y'' EMPTY] (Value 2 EMPTY) EMPTY 1))) @
         '' arguments is already defined, and name shadowing is not supported'')
        (fn_span (as_fn ''f'' [Var ''y'' EMPTY] (Value 2 EMPTY) EMPTY 1))),
      snd (push_function (as_fn ''f'' [Var ''x'' EMPTY] (Value 1 EMPTY) EMPTY 0) Context))"
    by blast
  have 3: "name (fn_name (as_fn ''f'' [Var ''y'' EMPTY] (Value 2 EMPTY) EMPTY 1)) = ''f''"
    "length (fn_args (as_fn ''f'' [Var ''y'' EMPTY] (Value 2 EMPTY) EMPTY 1)) = 1"
    "fn_span (as_fn ''f'' [Var ''y'' EMPTY] (Value 2 EMPTY) EMPTY 1) = EMPTY"
    by (simp_all add: as_fn_def)
  from 2 have 4: "push_function (as_fn ''f'' [Var ''y'' EMPTY] (Value 2 EMPTY) EMPTY 1)
       (snd (push_function (as_fn ''f'' [Var ''x'' EMPTY] (Value 1 EMPTY) EMPTY 0) Context)) =
     (Raise (InterpreterException
        (''function '' @ quoted ''f'' @ '' with '' @ str_nat 1 @
         '' arguments is already defined, and name shadowing is not supported'') EMPTY),
      snd (push_function (as_fn ''f'' [Var ''x'' EMPTY] (Value 1 EMPTY) EMPTY 0) Context))"
    unfolding 3 .
  show ?thesis
    unfolding 4 fst_conv snd_conv using v1 f1 1 by blast
qed

subsection \<open>C7: a call of an undefined function\<close>

text \<open>
  Claim C7: in a context with at least one frame, a \<open>FunctionCall\<close> whose name and number of
  argument expressions are registered in no frame raises the exception "no such function
  'f' with n arguments", where f is the name and n the number of argument expressions, and
  leaves the state unchanged. The key of the resolution is the pair of the name and the
  number of argument expressions, and the walk is downward: when a frame holds a function
  under that key and no frame above it does, \<open>get_function\<close> returns that function, and the
  call goes on with it.
\<close>

theorem undefined_function_call_raises:
  "stack_frames s \<noteq> [] \<longrightarrow>
     ((\<forall>f\<in>set (stack_frames s). funs f (name v, length args) = None) \<longrightarrow>
        eval (Suc n) (FunctionCall v args sp) s =
          (Raise (InterpreterException
             (''no such function '' @ quoted (name v) @ '' with '' @ str_nat (length args) @
              '' arguments'') (span v)), s)) \<and>
     (i < length (stack_frames s) \<and>
      funs (stack_frames s ! i) (name v, length args) = Some fn \<and>
      (\<forall>j. i < j \<and> j < length (stack_frames s) \<longrightarrow>
         funs (stack_frames s ! j) (name v, length args) = None) \<longrightarrow>
        get_function v (length args) s = Return fn \<and>
        eval (Suc n) (FunctionCall v args sp) s =
          bind (map_eval (eval n) args s) (\<lambda>values s.
          bind (set_args fn values s) (\<lambda>_ s. Function_eval (eval n) fn s)))"
proof (intro conjI impI)
  assume ne: "stack_frames s \<noteq> []"
    and "\<forall>f\<in>set (stack_frames s). funs f (name v, length args) = None"
  then have "List.find (\<lambda>g. funs g (name v, length args) \<noteq> None) (rev (stack_frames s)) = None"
    by (simp add: find_None_all)
  then show "eval (Suc n) (FunctionCall v args sp) s =
          (Raise (InterpreterException
             (''no such function '' @ quoted (name v) @ '' with '' @ str_nat (length args) @
              '' arguments'') (span v)), s)"
    by (simp add: get_function_walk [OF ne] del: append.simps)
next
  assume ne: "stack_frames s \<noteq> []"
    and a: "i < length (stack_frames s) \<and>
      funs (stack_frames s ! i) (name v, length args) = Some fn \<and>
      (\<forall>j. i < j \<and> j < length (stack_frames s) \<longrightarrow>
         funs (stack_frames s ! j) (name v, length args) = None)"
  then have "List.find (\<lambda>g. funs g (name v, length args) \<noteq> None) (rev (stack_frames s)) =
      Some (stack_frames s ! i)"
    by (intro find_rev_topmost) auto
  with a show g: "get_function v (length args) s = Return fn"
    by (simp add: get_function_walk [OF ne] del: append.simps)
  show "eval (Suc n) (FunctionCall v args sp) s =
          bind (map_eval (eval n) args s) (\<lambda>values s.
          bind (set_args fn values s) (\<lambda>_ s. Function_eval (eval n) fn s))"
    by (simp add: g)
qed

text \<open>
  Claim C7 at the call \<open>f(0.0)\<close> in a fresh \<open>Context\<close>, and at the call \<open>sum(4.0, 5.0)\<close> where
  \<open>sum\<close> is registered.
\<close>

theorem undefined_function_call_raises_witness:
  "stack_frames Context = [empty_frame] \<and>
   funs empty_frame (''f'', length [Value 0 EMPTY]) = None \<and>
   eval (Suc 0) (FunctionCall (Var ''f'' EMPTY) [Value 0 EMPTY] EMPTY) Context =
     (Raise (InterpreterException ''no such function 'f' with 1 arguments'' EMPTY), Context) \<and>
   funs (stack_frames sum_registered ! 0) (''sum'', length [Value 4 EMPTY, Value 5 EMPTY]) =
     Some sum_fn \<and>
   get_function (Var ''sum'' EMPTY) (length [Value 4 EMPTY, Value 5 EMPTY]) sum_registered =
     Return sum_fn \<and>
   eval (Suc 4) sum_call sum_registered =
     bind (map_eval (eval 4) [Value 4 EMPTY, Value 5 EMPTY] sum_registered) (\<lambda>values s.
     bind (set_args sum_fn values s) (\<lambda>_ s. Function_eval (eval 4) sum_fn s))"
proof -
  have r: "stack_frames sum_registered \<noteq> []"
    "0 < length (stack_frames sum_registered) \<and>
     funs (stack_frames sum_registered ! 0)
       (name (Var ''sum'' EMPTY), length [Value 4 EMPTY, Value 5 EMPTY]) = Some sum_fn \<and>
     (\<forall>j. 0 < j \<and> j < length (stack_frames sum_registered) \<longrightarrow>
        funs (stack_frames sum_registered ! j)
          (name (Var ''sum'' EMPTY), length [Value 4 EMPTY, Value 5 EMPTY]) = None)"
    by (auto simp: sum_registered_def)
  from undefined_function_call_raises
    [of sum_registered "Var ''sum'' EMPTY" "[Value 4 EMPTY, Value 5 EMPTY]" 4 EMPTY 0 sum_fn] r
  have found: "get_function (Var ''sum'' EMPTY) (length [Value 4 EMPTY, Value 5 EMPTY])
        sum_registered = Return sum_fn \<and>
      eval (Suc 4) (FunctionCall (Var ''sum'' EMPTY) [Value 4 EMPTY, Value 5 EMPTY] EMPTY)
        sum_registered =
      bind (map_eval (eval 4) [Value 4 EMPTY, Value 5 EMPTY] sum_registered) (\<lambda>values s.
      bind (set_args sum_fn values s) (\<lambda>_ s. Function_eval (eval 4) sum_fn s))"
    by blast
  have key: "funs (stack_frames sum_registered ! 0)
      (''sum'', length [Value 4 EMPTY, Value 5 EMPTY]) = Some sum_fn"
    by (simp add: sum_registered_def)
  have h: "stack_frames Context \<noteq> []"
    "\<forall>f\<in>set (stack_frames Context). funs f (name (Var ''f'' EMPTY), length [Value 0 EMPTY]) = None"
    by (simp_all add: Context_def empty_frame_def)
  have m: "''no such function '' @ quoted (name (Var ''f'' EMPTY)) @ '' with '' @
      str_nat (length [Value 0 EMPTY]) @ '' arguments'' = ''no such function 'f' with 1 arguments''"
    by (simp add: quoted_def str_nat.simps)
  from undefined_function_call_raises
    [of Context "Var ''f'' EMPTY" "[Value 0 EMPTY]" 0 EMPTY] h
  have "eval (Suc 0) (FunctionCall (Var ''f'' EMPTY) [Value 0 EMPTY] EMPTY) Context =
     (Raise (InterpreterException
        (''no such function '' @ quoted (name (Var ''f'' EMPTY)) @ '' with '' @
         str_nat (length [Value 0 EMPTY]) @ '' arguments'') (span (Var ''f'' EMPTY))), Context)"
    by blast
  moreover have "stack_frames Context = [empty_frame]"
    "funs empty_frame (''f'', length [Value 0 EMPTY]) = None"
    by (simp_all add: Context_def empty_frame_def)
  ultimately have "stack_frames Context = [empty_frame] \<and>
      funs empty_frame (''f'', length [Value 0 EMPTY]) = None \<and>
      eval (Suc 0) (FunctionCall (Var ''f'' EMPTY) [Value 0 EMPTY] EMPTY) Context =
        (Raise (InterpreterException ''no such function 'f' with 1 arguments'' EMPTY), Context)"
    unfolding m by simp
  with found key show ?thesis
    unfolding sum_call_def by blast
qed

subsection \<open>C8: \<open>ConditionExpr\<close>\<close>

text \<open>
  Claim C8: whenever the inner expression of a \<open>ConditionExpr\<close> evaluates to a \<open>Value\<close>, the
  \<open>ConditionExpr\<close> returns the raw boolean that is true if and only if the number of that
  \<open>Value\<close> differs from 0.0 (and leaves the state as the inner expression left it). The
  two instances the claim names, \<open>ConditionExpr(0.0)\<close> being false and
  \<open>ConditionExpr(1.4)\<close> being true, are the theorem at those inputs, stated after it.
\<close>

theorem ConditionExpr_true_iff_nonzero:
  "eval n condition s = (Return (Val x vsp), s') \<Longrightarrow>
   eval (Suc n) (ConditionExpr condition sp) s = (Return (Bool (x \<noteq> 0)), s')"
  by (simp add: FALSE_VALUES_def)

text \<open>Claim C8 at \<open>ConditionExpr(Value(0.0))\<close> and at \<open>ConditionExpr(Value(1.4))\<close>.\<close>

theorem ConditionExpr_true_iff_nonzero_witness:
  "eval (Suc 0) (Value 0 EMPTY) Context = (Return (Val 0 EMPTY), Context) \<and>
   eval (Suc (Suc 0)) (ConditionExpr (Value 0 EMPTY) EMPTY) Context =
     (Return (Bool False), Context) \<and>
   eval (Suc 0) (Value 1.4 EMPTY) Context = (Return (Val 1.4 EMPTY), Context) \<and>
   eval (Suc (Suc 0)) (ConditionExpr (Value 1.4 EMPTY) EMPTY) Context =
     (Return (Bool True), Context)"
  using ConditionExpr_true_iff_nonzero [of "Suc 0" "Value 0 EMPTY" Context 0 EMPTY Context EMPTY]
    ConditionExpr_true_iff_nonzero [of "Suc 0" "Value 1.4 EMPTY" Context "1.4" EMPTY Context EMPTY]
  by simp

subsection \<open>C9: \<open>AdditiveExpr\<close>\<close>

text \<open>
  Claim C9 says that an \<open>AdditiveExpr\<close> with operator ADD or SUB applies its operator to the
  numbers of its operands. \<open>AdditiveExpr.eval\<close> never reads \<open>self.operator\<close>: it computes
  \<open>lhs_value + rhs_value\<close> whatever the operator is. Here the code is evaluated on
  \<open>AdditiveExpr(Value(5.0), SUBTRACTION, Value(3.0))\<close> in a fresh \<open>Context\<close>: it returns the
  \<open>Value\<close> 8.0, with the span of the node, where subtraction gives 2.0.
\<close>

theorem AdditiveExpr_SUBTRACTION_adds:
  "eval 2 (AdditiveExpr (Value 5 EMPTY) SUBTRACTION (Value 3 EMPTY) EMPTY) Context =
     (Return (Val 8 EMPTY), Context)"
  by (simp add: eval_nat_numeral)

subsection \<open>C10: a lambda whose parameter is bound in the caller's frame\<close>

text \<open>
  Claim C10: the call of a lambda one of whose parameters has the name of a variable bound
  in the caller's current frame raises the exception "name shadowing is not supported": the
  lambda pushes no frame, so \<open>push_args\<close> binds into the caller's frame, where \<open>push_var\<close>
  finds the name. It is stated for \<open>Function.eval\<close> on a lambda that \<open>set_args\<close> has armed,
  and for the \<open>FunctionCall\<close> that resolves to the lambda and whose argument expressions have
  evaluated to values.
\<close>

theorem lambda_call_with_bound_parameter_is_Shadowing:
  "(is_lambda fn \<and> argv s (fn_id fn) = Some argvals \<and> length argvals = length (fn_args fn) \<and>
    stack_frames s \<noteq> [] \<and> p \<in> set (fn_args fn) \<and>
    vars (last (stack_frames s)) (name p) \<noteq> None \<longrightarrow>
      fst (Function_eval (eval n) fn s) =
        Raise (InterpreterException ''name shadowing is not supported'' EMPTY)) \<and>
   (get_function v (length args) s = Return fn \<and> is_lambda fn \<and>
    length (fn_args fn) = length args \<and> map_eval (eval n) args s = (Return argvals, s1) \<and>
    stack_frames s \<noteq> [] \<and> p \<in> set (fn_args fn) \<and>
    vars (last (stack_frames s)) (name p) \<noteq> None \<longrightarrow>
      fst (eval (Suc n) (FunctionCall v args sp) s) =
        Raise (InterpreterException ''name shadowing is not supported'' EMPTY))"
proof (intro conjI impI)
  assume "is_lambda fn \<and> argv s (fn_id fn) = Some argvals \<and>
    length argvals = length (fn_args fn) \<and> stack_frames s \<noteq> [] \<and> p \<in> set (fn_args fn) \<and>
    vars (last (stack_frames s)) (name p) \<noteq> None"
  then show "fst (Function_eval (eval n) fn s) =
      Raise (InterpreterException ''name shadowing is not supported'' EMPTY)"
    by (intro lambda_Function_eval_bound [where p = p and argvals = argvals]) simp_all
next
  assume a: "get_function v (length args) s = Return fn \<and> is_lambda fn \<and>
    length (fn_args fn) = length args \<and> map_eval (eval n) args s = (Return argvals, s1) \<and>
    stack_frames s \<noteq> [] \<and> p \<in> set (fn_args fn) \<and>
    vars (last (stack_frames s)) (name p) \<noteq> None"
  then have frames: "stack_frames s1 = stack_frames s"
    using eval_preserves map_eval_preserves by blast
  from a have len: "length argvals = length (fn_args fn)"
    by (auto dest: map_eval_length)
  define s2 where "s2 = s1\<lparr>argv := (argv s1)(fn_id fn \<mapsto> argvals)\<rparr>"
  from len have set: "set_args fn argvals s1 = (Return True, s2)"
    by (simp add: set_args_def s2_def)
  have "fst (Function_eval (eval n) fn s2) =
      Raise (InterpreterException ''name shadowing is not supported'' EMPTY)"
    using a len frames
    by (intro lambda_Function_eval_bound [where p = p and argvals = argvals])
      (simp_all add: s2_def)
  with a set show "fst (eval (Suc n) (FunctionCall v args sp) s) =
      Raise (InterpreterException ''name shadowing is not supported'' EMPTY)"
    by simp
qed

text \<open>
  Claim C10 at the call \<open>lambda(4.0, 1.0)\<close> of the lambda with the parameters \<open>a\<close> and \<open>b\<close>, in
  the context whose one frame binds \<open>a\<close>.
\<close>

theorem lambda_call_with_bound_parameter_is_Shadowing_witness:
  "fst (Function_eval (eval 4) lambda_fn
      (snd (set_args lambda_fn [Val 4 EMPTY, Val 1 EMPTY] a_bound))) =
     Raise (InterpreterException ''name shadowing is not supported'' EMPTY) \<and>
   fst (eval (Suc 4) lambda_call a_bound) =
     Raise (InterpreterException ''name shadowing is not supported'' EMPTY)"
proof -
  define s where "s = snd (set_args lambda_fn [Val 4 EMPTY, Val 1 EMPTY] a_bound)"
  have fn: "is_lambda lambda_fn" "fn_id lambda_fn = 1"
    "fn_args lambda_fn = [Var ''a'' EMPTY, Var ''b'' EMPTY]"
    by (simp_all add: lambda_fn_def as_fn_def)
  have frames: "stack_frames a_bound \<noteq> []"
    "vars (last (stack_frames a_bound)) (name (Var ''a'' EMPTY)) \<noteq> None"
    by (simp_all add: a_bound_def)
  have s: "argv s (fn_id lambda_fn) = Some [Val 4 EMPTY, Val 1 EMPTY]"
    "stack_frames s = stack_frames a_bound"
    by (simp_all add: s_def set_args_def fn)
  have h1: "is_lambda lambda_fn \<and> argv s (fn_id lambda_fn) = Some [Val 4 EMPTY, Val 1 EMPTY] \<and>
      length [Val 4 EMPTY, Val 1 EMPTY] = length (fn_args lambda_fn) \<and>
      stack_frames s \<noteq> [] \<and> Var ''a'' EMPTY \<in> set (fn_args lambda_fn) \<and>
      vars (last (stack_frames s)) (name (Var ''a'' EMPTY)) \<noteq> None"
    using fn frames s by simp
  have look: "get_function (Var ''lambda'' EMPTY) (length [Value 4 EMPTY, Value 1 EMPTY]) a_bound =
      Return lambda_fn"
    using get_function_walk [OF frames(1)] by (simp add: a_bound_def)
  have args: "map_eval (eval 4) [Value 4 EMPTY, Value 1 EMPTY] a_bound =
      (Return [Val 4 EMPTY, Val 1 EMPTY], a_bound)"
    by (simp add: eval_nat_numeral)
  have h2: "get_function (Var ''lambda'' EMPTY) (length [Value 4 EMPTY, Value 1 EMPTY]) a_bound =
        Return lambda_fn \<and> is_lambda lambda_fn \<and>
      length (fn_args lambda_fn) = length [Value 4 EMPTY, Value 1 EMPTY] \<and>
      map_eval (eval 4) [Value 4 EMPTY, Value 1 EMPTY] a_bound =
        (Return [Val 4 EMPTY, Val 1 EMPTY], a_bound) \<and>
      stack_frames a_bound \<noteq> [] \<and> Var ''a'' EMPTY \<in> set (fn_args lambda_fn) \<and>
      vars (last (stack_frames a_bound)) (name (Var ''a'' EMPTY)) \<noteq> None"
    using fn frames look args by simp
  from lambda_call_with_bound_parameter_is_Shadowing
    [where fn = lambda_fn and s = s and argvals = "[Val 4 EMPTY, Val 1 EMPTY]"
       and p = "Var ''a'' EMPTY" and n = 4] h1
  have 1: "fst (Function_eval (eval 4) lambda_fn s) =
      Raise (InterpreterException ''name shadowing is not supported'' EMPTY)"
    by blast
  from lambda_call_with_bound_parameter_is_Shadowing
    [where fn = lambda_fn and s = a_bound and argvals = "[Val 4 EMPTY, Val 1 EMPTY]"
       and p = "Var ''a'' EMPTY" and n = 4 and v = "Var ''lambda'' EMPTY"
       and args = "[Value 4 EMPTY, Value 1 EMPTY]" and ?s1.0 = a_bound and sp = EMPTY] h2
  have 2: "fst (eval (Suc 4)
      (FunctionCall (Var ''lambda'' EMPTY) [Value 4 EMPTY, Value 1 EMPTY] EMPTY) a_bound) =
      Raise (InterpreterException ''name shadowing is not supported'' EMPTY)"
    by blast
  from 1 2 show ?thesis
    unfolding s_def lambda_call_def by blast
qed

end
